theory Spec2Isabelle
  imports Complex_Main "HOL-Library.AList"
begin

section \<open>The options-chain reader of \<^verbatim>\<open>pandas/io/data.py\<close>\<close>

text \<open>
  A shallow embedding of the \<^verbatim>\<open>Options\<close> class of \<^verbatim>\<open>pandas/io/data.py\<close> and of the
  module-level helpers it uses. The methods keep their names; the leading underscore of
  a private name is dropped (\<^verbatim>\<open>_get_option_data\<close> is \<open>get_option_data\<close>). Every
  \<^verbatim>\<open>raise\<close> of the source is an \<open>Inl\<close> result, and a method that assigns to
  \<^verbatim>\<open>self\<close> returns the session it leaves behind, also when it raises.
\<close>

subsection \<open>Python values\<close>

text \<open>
  A Python float: a finite float is the real number it stands for (the two zeros are one
  value: they compare equal, are both false, and negation maps one to the other), beside
  the two infinities and not-a-number.
\<close>

datatype pyfloat = Flt real | PosInf | NegInf | NaN

text \<open>\<^verbatim>\<open>numpy.isnan\<close>, negation (\<^verbatim>\<open>x * (-1.0)\<close>) and \<^verbatim>\<open>a > b\<close> (false when either is not-a-number).\<close>

fun isnan :: "pyfloat \<Rightarrow> bool" where
  "isnan NaN = True"
| "isnan (Flt x) = False"
| "isnan PosInf = False"
| "isnan NegInf = False"

fun times_minus_one :: "pyfloat \<Rightarrow> pyfloat" where
  "times_minus_one (Flt x) = Flt (x * (- 1))"
| "times_minus_one PosInf = NegInf"
| "times_minus_one NegInf = PosInf"
| "times_minus_one NaN = NaN"

fun float_gt :: "pyfloat \<Rightarrow> pyfloat \<Rightarrow> bool" where
  "float_gt (Flt a) (Flt b) = (b < a)"
| "float_gt PosInf (Flt b) = True"
| "float_gt PosInf NegInf = True"
| "float_gt (Flt a) NegInf = True"
| "float_gt a b = False"

text \<open>The exception classes the modelled code raises or lets through.\<close>

datatype pyexc =
  ValueError | TypeError | IndexError | KeyError | AttributeError | ImportError | NotImplementedError

text \<open>
  The messages of \<^verbatim>\<open>RemoteDataError\<close>. \<open>Text\<close> carries a message the code formats
  itself; \<open>CannotRetrieveTableData e\<close> is the message
  \<^verbatim>\<open>"Cannot retrieve Table data {0}".format(str(e))\<close> for the caught exception \<open>e\<close>;
  the other two are the messages of \<^verbatim>\<open>_parse_url\<close>, which quote the URL.
\<close>

datatype remote_msg =
    Text string
  | CannotRetrieveTableData pyexc
  | UnableToParseURL string
  | NoRootElement string

datatype error = Raised pyexc | RemoteDataError remote_msg

record date =
  d_year :: int
  d_month :: int
  d_day :: int

record datetime =
  dt_year :: int
  dt_month :: int
  dt_day :: int
  dt_hour :: int
  dt_minute :: int

text \<open>
  The values that occur in table cells, column labels and frames: strings, floats,
  booleans (the \<^verbatim>\<open>IsNonstandard\<close> column), dates (\<^verbatim>\<open>Expiry\<close>) and timestamps
  (\<^verbatim>\<open>Quote_Time\<close>).
\<close>

datatype pyval = PStr string | PNum pyfloat | PBool bool | PDate date | PTime datetime

subsection \<open>Strings and numbers\<close>

text \<open>\<^verbatim>\<open>str(n)\<close> for an integer.\<close>

definition digit_char :: "nat \<Rightarrow> char" where
  "digit_char n = ''0123456789'' ! n"

fun str_nat :: "nat \<Rightarrow> string" where
  "str_nat n = (if n < 10 then [digit_char n] else str_nat (n div 10) @ [digit_char (n mod 10)])"

declare str_nat.simps [simp del]

definition str_int :: "int \<Rightarrow> string" where
  "str_int i = (if i < 0 then CHR ''-'' # str_nat (nat (- i)) else str_nat (nat i))"

text \<open>\<^verbatim>\<open>_two_char_month(s)\<close> is \<^verbatim>\<open>'{0:0>2}'.format(s)\<close>: right-aligned in width 2, filled with 0.\<close>

definition two_char_month :: "int \<Rightarrow> string" where
  "two_char_month s = (let t = str_int s in replicate (2 - length t) CHR ''0'' @ t)"

text \<open>\<^verbatim>\<open>t[-2:]\<close>, \<^verbatim>\<open>t[0:-k]\<close> and \<^verbatim>\<open>t[-k:]\<close> on a string: a slice never raises.\<close>

definition last_two :: "string \<Rightarrow> string" where
  "last_two t = drop (length t - 2) t"

definition drop_last :: "nat \<Rightarrow> string \<Rightarrow> string" where
  "drop_last k t = take (length t - k) t"

definition take_last :: "nat \<Rightarrow> string \<Rightarrow> string" where
  "take_last k t = drop (length t - k) t"

text \<open>\<^verbatim>\<open>s.replace(c, '')\<close> for a one-character \<^verbatim>\<open>c\<close>.\<close>

definition remove_char :: "char \<Rightarrow> string \<Rightarrow> string" where
  "remove_char c s = filter (\<lambda>x. x \<noteq> c) s"

text \<open>
  The number a plain decimal text denotes: surrounding blanks, an optional sign, digits
  with an optional decimal point (at least one digit); \<open>None\<close> for any other text. This
  is not Python's \<^verbatim>\<open>float\<close>, which is a parameter of the environment below; it is the
  numeric parse of the tabular parser modelled from the specification, and the
  \<^verbatim>\<open>float\<close> of the example environments.
\<close>

definition digit_val :: "char \<Rightarrow> nat option" where
  "digit_val c = map_of (zip ''0123456789'' [0, 1, 2, 3, 4, 5, 6, 7, 8, 9]) c"

definition is_digit :: "char \<Rightarrow> bool" where
  "is_digit c = (digit_val c \<noteq> None)"

definition is_space :: "char \<Rightarrow> bool" where
  "is_space c = (c = CHR '' '' \<or> c = CHR 0x09 \<or> c = CHR 0x0A \<or> c = CHR 0x0B
                 \<or> c = CHR 0x0C \<or> c = CHR 0x0D)"

definition strip :: "string \<Rightarrow> string" where
  "strip s = rev (dropWhile is_space (rev (dropWhile is_space s)))"

text \<open>The number a digit string denotes, read left to right.\<close>

fun digits_val :: "nat \<Rightarrow> string \<Rightarrow> nat" where
  "digits_val acc [] = acc"
| "digits_val acc (c # cs) = digits_val (10 * acc + (case digit_val c of Some d \<Rightarrow> d | None \<Rightarrow> 0)) cs"

definition unsigned_float :: "string \<Rightarrow> real option" where
  "unsigned_float s =
     (let ip = takeWhile is_digit s; rest = dropWhile is_digit s in
      case rest of
        [] \<Rightarrow> (if ip = [] then None else Some (real (digits_val 0 ip)))
      | c # fp \<Rightarrow>
          (if c = CHR ''.'' \<and> list_all is_digit fp \<and> (ip @ fp \<noteq> [])
           then Some (real (digits_val 0 ip) + real (digits_val 0 fp) / 10 ^ length fp)
           else None))"

definition decimal_float :: "string \<Rightarrow> pyfloat option" where
  "decimal_float s =
     (case strip s of
        [] \<Rightarrow> None
      | c # cs \<Rightarrow>
          (if c = CHR ''-'' then map_option (\<lambda>x. Flt (- x)) (unsigned_float cs)
           else if c = CHR ''+'' then map_option Flt (unsigned_float cs)
           else map_option Flt (unsigned_float (c # cs))))"

text \<open>\<^verbatim>\<open>s.split(sep)\<close> for a one-character separator: always at least one piece.\<close>

fun py_split :: "char \<Rightarrow> string \<Rightarrow> string list" where
  "py_split sep [] = [[]]"
| "py_split sep (c # cs) =
     (if c = sep then [] # py_split sep cs
      else (case py_split sep cs of
              w # ws \<Rightarrow> (c # w) # ws
            | [] \<Rightarrow> [[c]]))"

text \<open>\<^verbatim>\<open>s.zfill(2)\<close>: zeros go after a leading sign.\<close>

definition zfill2 :: "string \<Rightarrow> string" where
  "zfill2 s =
     (case s of
        [] \<Rightarrow> ''00''
      | [c] \<Rightarrow> (if c = CHR ''+'' \<or> c = CHR ''-'' then [c, CHR ''0''] else [CHR ''0'', c])
      | _ \<Rightarrow> s)"

text \<open>\<^verbatim>\<open>s.upper()\<close> on ASCII letters.\<close>

definition upper_char :: "char \<Rightarrow> char" where
  "upper_char c =
     (case map_of (zip ''abcdefghijklmnopqrstuvwxyz'' ''ABCDEFGHIJKLMNOPQRSTUVWXYZ'') c of
        Some u \<Rightarrow> u
      | None \<Rightarrow> c)"

definition upper :: "string \<Rightarrow> string" where
  "upper s = map upper_char s"

text \<open>
  \<^verbatim>\<open>xs[i]\<close> on a Python list, for an index that is not negative: out of range is
  \<^verbatim>\<open>IndexError\<close>. \<open>first\<close> is \<^verbatim>\<open>xs[0]\<close>.
\<close>

definition item :: "'a list \<Rightarrow> nat \<Rightarrow> pyexc + 'a" where
  "item xs i = (if i < length xs then Inr (xs ! i) else Inl IndexError)"

definition first :: "'a list \<Rightarrow> pyexc + 'a" where
  "first xs = item xs 0"

text \<open>
  \<^verbatim>\<open>xs[start:stop]\<close> with Python's rules: a negative bound counts from the end, and
  both bounds are clamped to the list.
\<close>

definition slice_bound :: "nat \<Rightarrow> int \<Rightarrow> nat" where
  "slice_bound n i = (if i < 0 then nat (max (i + int n) 0) else min (nat i) n)"

definition py_slice :: "int \<Rightarrow> int \<Rightarrow> 'a list \<Rightarrow> 'a list" where
  "py_slice start stop xs =
     (let a = slice_bound (length xs) start; b = slice_bound (length xs) stop
      in take (b - a) (drop a xs))"

subsection \<open>The parsed page\<close>

text \<open>
  The page is read through lxml only by XPath queries, so a document is the results of
  the queries the code makes. A cell is an element matched by \<^verbatim>\<open>.//th\<close> or \<^verbatim>\<open>.//td\<close>:
  its \<^verbatim>\<open>text_content()\<close> and the list \<^verbatim>\<open>xpath('.//@class')\<close>. A row is an element
  matched by \<^verbatim>\<open>.//tr\<close>, a table the list of its rows.
\<close>

record cell =
  text_content :: string
  class_attrs :: "string list"

record tr =
  th_cells :: "cell list"
  td_cells :: "cell list"

type_synonym table = "tr list"

text \<open>An element of the quote header: \<^verbatim>\<open>.text\<close> (which may be \<^verbatim>\<open>None\<close>) and \<^verbatim>\<open>getchildren()\<close>.\<close>

datatype element = Element (el_text: "string option") (getchildren: "element list")

text \<open>
  A root: the results of \<^verbatim>\<open>.//table\<close>, \<^verbatim>\<open>.//*[@class="time_rtq_ticker"]\<close> and
  \<^verbatim>\<open>.//*[@class="time_rtq"]\<close>.
\<close>

record page =
  page_tables :: "table list"
  time_rtq_ticker :: "element list"
  time_rtq :: "element list"

subsection \<open>Frames\<close>

text \<open>
  Modelled from the spec: the DataFrame of \<^verbatim>\<open>pandas.core.frame\<close> and the operations
  the class calls on it, which are not among the sources. The specification describes the
  table as rows with an index (re-indexed "by (Strike, Expiry, Type, Symbol)") and named
  columns. Here it is kept row by row: the names of the index levels, the column labels,
  and for each row its index values and its cells by label. A label a row does not carry
  reads as not-a-number.
\<close>

record frow =
  ix :: "(pyval \<times> pyval) list"
  vals :: "(pyval \<times> pyval) list"

record frame =
  index_names :: "pyval list"
  columns :: "pyval list"
  rows :: "frow list"

definition get_cell :: "frow \<Rightarrow> pyval \<Rightarrow> pyval" where
  "get_cell r c = (case map_of (vals r) c of Some v \<Rightarrow> v | None \<Rightarrow> PNum NaN)"

definition get_index :: "frow \<Rightarrow> pyval \<Rightarrow> pyval" where
  "get_index r k = (case map_of (ix r) k of Some v \<Rightarrow> v | None \<Rightarrow> PNum NaN)"

text \<open>
  Modelled from the spec: \<^verbatim>\<open>frame[c] = series\<close> of the DataFrame ("attach" a column),
  where the series is computed row by row or is a scalar: an existing column is
  overwritten in place, a new one is appended.
\<close>

definition set_column :: "pyval \<Rightarrow> (frow \<Rightarrow> pyval) \<Rightarrow> frame \<Rightarrow> frame" where
  "set_column c f df =
     df\<lparr>columns := (if c \<in> set (columns df) then columns df else columns df @ [c]),
        rows := map (\<lambda>r. r\<lparr>vals := AList.update c (f r) (vals r)\<rparr>) (rows df)\<rparr>"

text \<open>Modelled from the spec: \<^verbatim>\<open>del frame[c]\<close> of the DataFrame, for a column that exists.\<close>

definition del_column :: "pyval \<Rightarrow> frame \<Rightarrow> frame" where
  "del_column c df =
     df\<lparr>columns := removeAll c (columns df),
        rows := map (\<lambda>r. r\<lparr>vals := AList.delete c (vals r)\<rparr>) (rows df)\<rparr>"

text \<open>
  Modelled from the spec: \<^verbatim>\<open>frame.rename(columns={old: new}, inplace=True)\<close> of the
  DataFrame ("rename any Open Int header to Open_Int").
\<close>

definition rename_column :: "pyval \<Rightarrow> pyval \<Rightarrow> frame \<Rightarrow> frame" where
  "rename_column old new df =
     df\<lparr>columns := map (\<lambda>c. if c = old then new else c) (columns df),
        rows := map (\<lambda>r. r\<lparr>vals := map (\<lambda>(c, v). (if c = old then new else c, v)) (vals r)\<rparr>)
                  (rows df)\<rparr>"

text \<open>
  Modelled from the spec: \<^verbatim>\<open>frame.set_index(keys, inplace=True)\<close> of the DataFrame
  ("re-index the table by ..."): \<^verbatim>\<open>KeyError\<close> when a key is not a column; otherwise
  the keys become the index levels, replacing the old index, and leave the columns.
\<close>

definition set_index :: "pyval list \<Rightarrow> frame \<Rightarrow> pyexc + frame" where
  "set_index keys df =
     (if list_all (\<lambda>k. k \<in> set (columns df)) keys
      then Inr \<lparr>index_names = keys,
                columns = filter (\<lambda>c. c \<notin> set keys) (columns df),
                rows = map (\<lambda>r. \<lparr>ix = map (\<lambda>k. (k, get_cell r k)) keys,
                                  vals = filter (\<lambda>(c, v). c \<notin> set keys) (vals r)\<rparr>)
                           (rows df)\<rparr>
      else Inl KeyError)"

text \<open>
  Modelled from the spec: \<^verbatim>\<open>series.str[...]\<close> ("stripping a fixed-length suffix"): the
  slice of a string, not-a-number for any other value.
\<close>

definition str_slice :: "(string \<Rightarrow> string) \<Rightarrow> pyval \<Rightarrow> pyval" where
  "str_slice f v = (case v of PStr s \<Rightarrow> PStr (f s) | _ \<Rightarrow> PNum NaN)"

text \<open>
  Modelled from the spec: \<^verbatim>\<open>frame.dropna(how='all')\<close> of the DataFrame ("dropping any
  rows that are entirely empty"), with \<^verbatim>\<open>pandas.isnull\<close> on a value.
\<close>

definition isnull :: "pyval \<Rightarrow> bool" where
  "isnull v = (case v of PNum f \<Rightarrow> isnan f | _ \<Rightarrow> False)"

definition dropna_all :: "frame \<Rightarrow> frame" where
  "dropna_all df =
     df\<lparr>rows := filter (\<lambda>r. \<not> list_all (\<lambda>c. isnull (get_cell r c)) (columns df)) (rows df)\<rparr>"

text \<open>
  Modelled from the spec: \<^verbatim>\<open>df[slice(start, stop)]\<close> of the DataFrame ("the contiguous
  window"): rows by position, with the slicing rules of a Python list.
\<close>

definition slice_rows :: "int \<Rightarrow> int \<Rightarrow> frame \<Rightarrow> frame" where
  "slice_rows start stop df = df\<lparr>rows := py_slice start stop (rows df)\<rparr>"

text \<open>
  Modelled from the spec: \<^verbatim>\<open>df.index.get_level_values(name)\<close> of the index:
  \<^verbatim>\<open>KeyError\<close> when the index has no such level.
\<close>

definition get_level_values :: "frame \<Rightarrow> pyval \<Rightarrow> pyexc + pyval list" where
  "get_level_values df k =
     (if k \<in> set (index_names df) then Inr (map (\<lambda>r. get_index r k) (rows df))
      else Inl KeyError)"

subsection \<open>The environment\<close>

text \<open>
  What \<^verbatim>\<open>lxml.html.parse(url)\<close> can do: the import of lxml fails; the call raises one
  of the network error classes; it raises something else; or it returns a document, whose
  \<^verbatim>\<open>getroot()\<close> may be \<^verbatim>\<open>None\<close>.
\<close>

datatype parse_outcome =
    ImportFailed
  | NetworkFailure
  | ParseRaised pyexc
  | Parsed "page option"

text \<open>
  Everything the class takes from outside the file, as parameters:
  \<^item> the module constants \<^verbatim>\<open>CUR_MONTH\<close>, \<^verbatim>\<open>CUR_YEAR\<close>, \<^verbatim>\<open>CUR_DAY\<close>, read from the
    clock once at import time;
  \<^item> the network: what \<^verbatim>\<open>parse(url)\<close> gives on the \<open>n\<close>-th fetch of the session;
  \<^item> \<^verbatim>\<open>TextParser(data, names=..., na_values=..., thousands=...).get_chunk()\<close>
    of \<^verbatim>\<open>pandas.io.parsers\<close>;
  \<^item> \<^verbatim>\<open>pandas.to_datetime\<close>, value by value (with the default of its \<^verbatim>\<open>errors\<close>
    argument it hands back what it cannot parse);
  \<^item> \<^verbatim>\<open>datetime.strptime(text, format)\<close>;
  \<^item> Python's \<^verbatim>\<open>float(text)\<close> on a string, \<open>None\<close> for \<^verbatim>\<open>ValueError\<close>: which spellings
    it accepts (exponents, infinities, not-a-number, kinds of blanks and digits) and how
    it rounds is the running Python's business, and every float it can return is a
    \<open>pyfloat\<close>;
  \<^item> \<^verbatim>\<open>frame.sortlevel()\<close>.
  The theorems below hold for every environment.
\<close>

record env =
  CUR_MONTH :: int
  CUR_YEAR :: int
  CUR_DAY :: int
  lxml_parse :: "nat \<Rightarrow> string \<Rightarrow> parse_outcome"
  TextParser :: "pyval list list \<Rightarrow> pyval list \<Rightarrow> string list \<Rightarrow> char \<Rightarrow> pyexc + frame"
  to_datetime :: "pyval \<Rightarrow> pyval"
  strptime :: "string \<Rightarrow> string \<Rightarrow> pyexc + datetime"
  py_float :: "string \<Rightarrow> pyfloat option"
  sortlevel :: "frame \<Rightarrow> frame"

subsection \<open>The session\<close>

text \<open>
  An \<^verbatim>\<open>Options\<close> instance. Its attributes are set by name; the names fall into families
  that cannot clash, one field each: \<^verbatim>\<open>symbol\<close>; \<^verbatim>\<open>underlying_price\<close> and
  \<^verbatim>\<open>quote_time\<close> (\<open>None\<close> while the attribute does not exist); the table sets
  \<^verbatim>\<open>_tablesMMYY\<close>; the frames \<^verbatim>\<open>calls\<close>, \<^verbatim>\<open>puts\<close>, \<^verbatim>\<open>callsMMYY\<close>, \<^verbatim>\<open>putsMMYY\<close>.
  The two maps are keyed by the full attribute name, and a missing key is the
  \<^verbatim>\<open>AttributeError\<close> of \<^verbatim>\<open>getattr\<close>. \<open>fetches\<close> is not an attribute of the source: it
  counts the calls of \<^verbatim>\<open>parse(url)\<close> the session has made.
\<close>

record options =
  symbol :: string
  underlying_price :: "pyfloat option"
  quote_time :: "pyval option"
  tables_attr :: "string \<Rightarrow> table list option"
  frame_attr :: "string \<Rightarrow> frame option"
  fetches :: nat

text \<open>\<^verbatim>\<open>Options.__init__(symbol, data_source)\<close>; the deprecation warning is left out.\<close>

definition Options_init :: "string \<Rightarrow> string option \<Rightarrow> pyexc + options" where
  "Options_init ticker data_source =
     (let data_source' = (case data_source of None \<Rightarrow> ''yahoo'' | Some d \<Rightarrow> d) in
      if data_source' \<noteq> ''yahoo'' then Inl NotImplementedError
      else Inr \<lparr>symbol = upper ticker, underlying_price = None, quote_time = None,
                tables_attr = (\<lambda>_. None), frame_attr = (\<lambda>_. None), fetches = 0\<rparr>)"

subsection \<open>Validation of the date arguments\<close>

text \<open>
  \<^verbatim>\<open>dt.date(year, month, 1)\<close>: \<^verbatim>\<open>ValueError\<close> unless the year is in 1..9999 and the month
  in 1..12 (day 1 exists in every month).
\<close>

definition date_first :: "int \<Rightarrow> int \<Rightarrow> error + date" where
  "date_first y m =
     (if 1 \<le> y \<and> y \<le> 9999 \<and> 1 \<le> m \<and> m \<le> 12
      then Inr \<lparr>d_year = y, d_month = m, d_day = 1\<rparr>
      else Inl (Raised ValueError))"

text \<open>
  \<^verbatim>\<open>Options._try_parse_dates(year, month, expiry)\<close>. \<open>None\<close> is Python's \<^verbatim>\<open>None\<close>. The
  first test is the source's
  \<^verbatim>\<open>(month is not None and year is None) or (month is None and year is not None) and expiry is None\<close>
  with Python's precedence: \<^verbatim>\<open>and\<close> binds tighter than \<^verbatim>\<open>or\<close>, so \<^verbatim>\<open>expiry is None\<close>
  belongs to the second alternative only. The deprecation warning changes no result and
  is left out. The last branch calls \<^verbatim>\<open>dt.date\<close> with the arguments as they are, which
  is a \<^verbatim>\<open>TypeError\<close> when one of them is \<^verbatim>\<open>None\<close>.
\<close>

definition try_parse_dates ::
  "env \<Rightarrow> int option \<Rightarrow> int option \<Rightarrow> date option \<Rightarrow> error + (int \<times> int \<times> date)" where
  "try_parse_dates ev year month expiry =
     (if (month \<noteq> None \<and> year = None) \<or> ((month = None \<and> year \<noteq> None) \<and> expiry = None)
      then Inl (Raised ValueError)
      else
        (case expiry of
           Some e \<Rightarrow> Inr (d_year e, d_month e, e)
         | None \<Rightarrow>
             (if year = None \<and> month = None
              then (case date_first (CUR_YEAR ev) (CUR_MONTH ev) of
                      Inl err \<Rightarrow> Inl err
                    | Inr e \<Rightarrow> Inr (CUR_YEAR ev, CUR_MONTH ev, e))
              else (case (year, month) of
                      (Some y, Some m) \<Rightarrow>
                        (case date_first y m of
                           Inl err \<Rightarrow> Inl err
                         | Inr e \<Rightarrow> Inr (y, m, e))
                    | _ \<Rightarrow> Inl (Raised TypeError)))))"

subsection \<open>Cells and tables\<close>

text \<open>
  \<^verbatim>\<open>_parse_row_values(val)\<close>, the local function of \<^verbatim>\<open>_unpack\<close>: the text of the cell;
  for a cell with the class \<^verbatim>\<open>neg_arrow\<close>, the float of the text without its commas,
  times \<^verbatim>\<open>-1.0\<close>, or not-a-number when \<^verbatim>\<open>float\<close> raises \<^verbatim>\<open>ValueError\<close>.
\<close>

definition parse_row_values :: "env \<Rightarrow> cell \<Rightarrow> pyval" where
  "parse_row_values ev val =
     (let ret = text_content val in
      if ''neg_arrow'' \<in> set (class_attrs val)
      then (case py_float ev (remove_char CHR '','' ret) of
              Some f \<Rightarrow> PNum (times_minus_one f)
            | None \<Rightarrow> PNum NaN)
      else PStr ret)"

text \<open>
  \<^verbatim>\<open>_unpack(row, kind)\<close>; the callers pass \<^verbatim>\<open>'th'\<close> and \<^verbatim>\<open>'td'\<close>, and a row holds no
  other kind of cell here.
\<close>

definition unpack :: "env \<Rightarrow> tr \<Rightarrow> string \<Rightarrow> pyval list" where
  "unpack ev row kind =
     (let els = (if kind = ''th'' then th_cells row
                 else if kind = ''td'' then td_cells row else [])
      in map (parse_row_values ev) els)"

text \<open>\<^verbatim>\<open>_parse_options_data(table)\<close>: \<^verbatim>\<open>rows[0]\<close> is an \<^verbatim>\<open>IndexError\<close> on a table without rows.\<close>

definition parse_options_data :: "env \<Rightarrow> table \<Rightarrow> pyexc + frame" where
  "parse_options_data ev table =
     (case table of
        [] \<Rightarrow> Inl IndexError
      | row0 # rest \<Rightarrow>
          (let header = unpack ev row0 ''th'';
               data = map (\<lambda>row. unpack ev row ''td'') rest
           in TextParser ev data header [''N/A''] CHR '',''))"

subsection \<open>Fetching a page\<close>

text \<open>
  \<^verbatim>\<open>Options._parse_url(url)\<close>. A failed import of lxml is re-raised as \<^verbatim>\<open>ImportError\<close>
  before anything is fetched; every other outcome has called \<^verbatim>\<open>parse(url)\<close> once.
\<close>

definition parse_url :: "env \<Rightarrow> options \<Rightarrow> string \<Rightarrow> (error + page) \<times> options" where
  "parse_url ev self url =
     (case lxml_parse ev (fetches self) url of
        ImportFailed \<Rightarrow> (Inl (Raised ImportError), self)
      | NetworkFailure \<Rightarrow>
          (Inl (RemoteDataError (UnableToParseURL url)), self\<lparr>fetches := fetches self + 1\<rparr>)
      | ParseRaised e \<Rightarrow> (Inl (Raised e), self\<lparr>fetches := fetches self + 1\<rparr>)
      | Parsed None \<Rightarrow>
          (Inl (RemoteDataError (NoRootElement url)), self\<lparr>fetches := fetches self + 1\<rparr>)
      | Parsed (Some root_page) \<Rightarrow> (Inr root_page, self\<lparr>fetches := fetches self + 1\<rparr>))"

text \<open>\<^verbatim>\<open>Options._get_option_page_from_yahoo(expiry)\<close>.\<close>

definition get_option_page_from_yahoo ::
  "env \<Rightarrow> options \<Rightarrow> date \<Rightarrow> (error + page) \<times> options" where
  "get_option_page_from_yahoo ev self expiry =
     (let url = ''http://finance.yahoo.com/q/op?s='' @ symbol self;
          m1 = two_char_month (d_month expiry);
          url' = (if d_month expiry = CUR_MONTH ev \<and> d_year expiry = CUR_YEAR ev
                  then url @ ''+Options''
                  else url @ ''&m='' @ str_int (d_year expiry) @ ''-'' @ m1)
      in parse_url ev self url')"

subsection \<open>The quote of the underlying\<close>

text \<open>
  \<^verbatim>\<open>Options._get_underlying_price(root)\<close>, in two parts. The first statement reads the
  price: \<^verbatim>\<open>[0]\<close> on an empty query result or on an element without children is an
  \<^verbatim>\<open>IndexError\<close>, \<^verbatim>\<open>float(None)\<close> a \<^verbatim>\<open>TypeError\<close>, \<^verbatim>\<open>float\<close> of a text that is
  no number a \<^verbatim>\<open>ValueError\<close>.
\<close>

definition read_underlying_price :: "env \<Rightarrow> page \<Rightarrow> pyexc + pyfloat" where
  "read_underlying_price ev root_page =
     (case first (time_rtq_ticker root_page) of
        Inl e \<Rightarrow> Inl e
      | Inr el \<Rightarrow>
          (case first (getchildren el) of
             Inl e \<Rightarrow> Inl e
           | Inr child \<Rightarrow>
               (case el_text child of
                  None \<Rightarrow> Inl TypeError
                | Some t \<Rightarrow> (case py_float ev t of None \<Rightarrow> Inl ValueError | Some p \<Rightarrow> Inr p))))"

text \<open>
  The remaining statements read the time of the quote. \<^verbatim>\<open>replace\<close> sets the fields
  that the text does not give.
\<close>

definition read_quote_time :: "env \<Rightarrow> page \<Rightarrow> pyexc + datetime" where
  "read_quote_time ev root_page =
     (case first (time_rtq root_page) of
        Inl e \<Rightarrow> Inl e
      | Inr el \<Rightarrow>
          (case first (getchildren el) of
             Inl e \<Rightarrow> Inl e
           | Inr child \<Rightarrow>
               (if el_text child \<noteq> None \<and> el_text child \<noteq> Some []
                then
                  (let quote_time_text = (case el_text child of Some t \<Rightarrow> t | None \<Rightarrow> []);
                       split = py_split CHR '','' quote_time_text
                   in case item split 1 of
                        Inl e \<Rightarrow> Inl e
                      | Inr s1 \<Rightarrow>
                          (let timesplit = py_split CHR '':'' (strip s1)
                           in case item timesplit 1 of
                                Inl e \<Rightarrow> Inl e
                              | Inr t1 \<Rightarrow>
                                  (let timestring =
                                         hd split @ '', '' @ zfill2 (hd timesplit) @ '':'' @ t1
                                   in case strptime ev timestring ''%b %d, %H:%M%p EDT'' of
                                        Inl e \<Rightarrow> Inl e
                                      | Inr q \<Rightarrow> Inr (q\<lparr>dt_year := CUR_YEAR ev\<rparr>))))
                else
                  (case first (getchildren child) of
                     Inl e \<Rightarrow> Inl e
                   | Inr grandchild \<Rightarrow>
                       (case el_text grandchild of
                          None \<Rightarrow> Inl TypeError
                        | Some t \<Rightarrow>
                            (case strptime ev t ''%H:%M%p EDT'' of
                               Inl e \<Rightarrow> Inl e
                             | Inr q \<Rightarrow>
                                 Inr (q\<lparr>dt_year := CUR_YEAR ev, dt_month := CUR_MONTH ev,
                                        dt_day := CUR_DAY ev\<rparr>)))))))"

definition get_underlying_price :: "env \<Rightarrow> page \<Rightarrow> pyexc + (pyfloat \<times> datetime)" where
  "get_underlying_price ev root_page =
     (case read_underlying_price ev root_page of
        Inl e \<Rightarrow> Inl e
      | Inr price \<Rightarrow>
          (case read_quote_time ev root_page of
             Inl e \<Rightarrow> Inl e
           | Inr q \<Rightarrow> Inr (price, q)))"

text \<open>
  \<^verbatim>\<open>Options._parse_option_page_from_yahoo(root)\<close>: only \<^verbatim>\<open>IndexError\<close> is caught and
  turned into a quote of two not-a-numbers; any other exception leaves the method.
\<close>

definition parse_option_page_from_yahoo ::
  "env \<Rightarrow> options \<Rightarrow> page \<Rightarrow> (error + table list) \<times> options" where
  "parse_option_page_from_yahoo ev self root_page =
     (let tables = page_tables root_page; ntables = length tables in
      if ntables = 0 then (Inl (RemoteDataError (Text ''No tables found'')), self)
      else
        (case get_underlying_price ev root_page of
           Inr (price, q) \<Rightarrow>
             (Inr tables, self\<lparr>underlying_price := Some price, quote_time := Some (PTime q)\<rparr>)
         | Inl IndexError \<Rightarrow>
             (Inr tables, self\<lparr>underlying_price := Some NaN, quote_time := Some (PNum NaN)\<rparr>)
         | Inl e \<Rightarrow> (Inl (Raised e), self)))"

text \<open>The attribute name \<^verbatim>\<open>prefix + m1 + str(year)[-2:]\<close>.\<close>

definition attr_name :: "string \<Rightarrow> int \<Rightarrow> int \<Rightarrow> string" where
  "attr_name prefix m y = prefix @ two_char_month m @ last_two (str_int y)"

text \<open>\<^verbatim>\<open>Options._get_option_tables(expiry)\<close>.\<close>

definition get_option_tables ::
  "env \<Rightarrow> options \<Rightarrow> date \<Rightarrow> (error + table list) \<times> options" where
  "get_option_tables ev self expiry =
     (case get_option_page_from_yahoo ev self expiry of
        (Inl e, self1) \<Rightarrow> (Inl e, self1)
      | (Inr root_page, self1) \<Rightarrow>
          (case parse_option_page_from_yahoo ev self1 root_page of
             (Inl e, self2) \<Rightarrow> (Inl e, self2)
           | (Inr tables, self2) \<Rightarrow>
               (let table_name = attr_name ''_tables'' (d_month expiry) (d_year expiry)
                in (Inr tables,
                    self2\<lparr>tables_attr := (tables_attr self2)(table_name \<mapsto> tables)\<rparr>))))"

subsection \<open>Post-processing\<close>

text \<open>
  \<^verbatim>\<open>Options._process_data(frame, type)\<close>, statement by statement. \<^verbatim>\<open>frame.Symbol\<close> is an
  \<^verbatim>\<open>AttributeError\<close> when the frame has no such column, and so are
  \<^verbatim>\<open>self.underlying_price\<close> and \<^verbatim>\<open>self.quote_time\<close> on a session that has not
  fetched a page.
\<close>

definition process_data :: "env \<Rightarrow> options \<Rightarrow> frame \<Rightarrow> string \<Rightarrow> pyexc + frame" where
  "process_data ev self frame0 type =
     (if PStr ''Symbol'' \<notin> set (columns frame0) then Inl AttributeError
      else
        (let frame1 = set_column (PStr ''Rootexp'')
                        (\<lambda>r. str_slice (drop_last 9) (get_cell r (PStr ''Symbol''))) frame0;
             frame2 = set_column (PStr ''Root'')
                        (\<lambda>r. str_slice (drop_last 6) (get_cell r (PStr ''Rootexp''))) frame1;
             frame3 = set_column (PStr ''Expiry'')
                        (\<lambda>r. to_datetime ev (str_slice (take_last 6) (get_cell r (PStr ''Rootexp''))))
                        frame2;
             frame4 = set_column (PStr ''IsNonstandard'')
                        (\<lambda>r. PBool (get_cell r (PStr ''Root'')
                                      \<noteq> PStr (remove_char CHR ''-'' (symbol self))))
                        frame3;
             frame5 = del_column (PStr ''Rootexp'') frame4;
             frame6 = set_column (PStr ''Underlying'') (\<lambda>r. PStr (symbol self)) frame5
         in case underlying_price self of
              None \<Rightarrow> Inl AttributeError
            | Some price \<Rightarrow>
                (let frame7 = set_column (PStr ''Underlying_Price'') (\<lambda>r. PNum price) frame6
                 in case quote_time self of
                      None \<Rightarrow> Inl AttributeError
                    | Some q \<Rightarrow>
                        (let frame8 = set_column (PStr ''Quote_Time'') (\<lambda>r. q) frame7;
                             frame9 = rename_column (PStr ''Open Int'') (PStr ''Open_Int'') frame8;
                             frame10 = set_column (PStr ''Type'') (\<lambda>r. PStr type) frame9
                         in set_index [PStr ''Strike'', PStr ''Expiry'', PStr ''Type'',
                                       PStr ''Symbol''] frame10))))"

text \<open>
  The root \<^verbatim>\<open>_process_data\<close> decodes from an option symbol: \<^verbatim>\<open>Symbol[0:-9]\<close> drops the
  type letter and the strike, \<^verbatim>\<open>[0:-6]\<close> the date.
\<close>

definition decoded_root :: "pyval \<Rightarrow> pyval" where
  "decoded_root symbol_value = str_slice (drop_last 6) (str_slice (drop_last 9) symbol_value)"

subsection \<open>The chain accessor\<close>

text \<open>The class constant \<^verbatim>\<open>_TABLE_LOC = {'calls': 9, 'puts': 13}\<close>.\<close>

definition TABLE_LOC :: "string \<Rightarrow> nat option" where
  "TABLE_LOC name =
     (if name = ''calls'' then Some 9 else if name = ''puts'' then Some 13 else None)"

text \<open>
  The \<^verbatim>\<open>try\<close> block of \<^verbatim>\<open>_get_option_data\<close>: \<^verbatim>\<open>tables[table_loc]\<close> is an
  \<^verbatim>\<open>IndexError\<close> when the list is too short; the side-only attribute is set only for
  the current month and year, the qualified one always. Nothing is assigned to the session
  before the last statement that can raise.
\<close>

definition store_option_data ::
  "env \<Rightarrow> options \<Rightarrow> table list \<Rightarrow> nat \<Rightarrow> string \<Rightarrow> int \<Rightarrow> int \<Rightarrow> pyexc + (frame \<times> options)" where
  "store_option_data ev self tables table_loc name month year =
     (case item tables table_loc of
        Inl e \<Rightarrow> Inl e
      | Inr table \<Rightarrow>
          (case parse_options_data ev table of
             Inl e \<Rightarrow> Inl e
           | Inr parsed \<Rightarrow>
               (let option_data0 = set_column (PStr ''Type'') (\<lambda>r. PStr (drop_last 1 name)) parsed
                in case process_data ev self option_data0 (drop_last 1 name) of
                     Inl e \<Rightarrow> Inl e
                   | Inr option_data \<Rightarrow>
                       (let self1 = (if month = CUR_MONTH ev \<and> year = CUR_YEAR ev
                                     then self\<lparr>frame_attr := (frame_attr self)(name \<mapsto> option_data)\<rparr>
                                     else self);
                            name' = attr_name name month year
                        in Inr (option_data,
                                self1\<lparr>frame_attr := (frame_attr self1)(name' \<mapsto> option_data)\<rparr>)))))"

text \<open>
  The first \<^verbatim>\<open>try\<close> statement of \<^verbatim>\<open>_get_option_data\<close>: the table set is read from
  the attribute \<^verbatim>\<open>_tablesMMYY\<close>, and fetched only when that attribute does not exist.
\<close>

definition lookup_tables ::
  "env \<Rightarrow> options \<Rightarrow> string \<Rightarrow> date \<Rightarrow> (error + table list) \<times> options" where
  "lookup_tables ev self table_name expiry =
     (case tables_attr self table_name of
        Some tables \<Rightarrow> (Inr tables, self)
      | None \<Rightarrow> get_option_tables ev self expiry)"

text \<open>
  \<^verbatim>\<open>Options._get_option_data(month, year, expiry, name)\<close>. The test before the second
  \<^verbatim>\<open>try\<close> block is the source's \<^verbatim>\<open>table_loc - 1 > ntables\<close>. An exception inside that
  block comes back as \<^verbatim>\<open>RemoteDataError\<close>; one raised before it is not caught.
\<close>

definition get_option_data ::
  "env \<Rightarrow> options \<Rightarrow> int option \<Rightarrow> int option \<Rightarrow> date option \<Rightarrow> string
     \<Rightarrow> (error + frame) \<times> options" where
  "get_option_data ev self month year expiry name =
     (case try_parse_dates ev year month expiry of
        Inl e \<Rightarrow> (Inl e, self)
      | Inr (year', month', expiry') \<Rightarrow>
          (let table_name = attr_name ''_tables'' month' year' in
           case lookup_tables ev self table_name expiry' of
             (Inl e, self1) \<Rightarrow> (Inl e, self1)
           | (Inr tables, self1) \<Rightarrow>
               (let ntables = length tables in
                case TABLE_LOC name of
                  None \<Rightarrow> (Inl (Raised KeyError), self1)
                | Some table_loc \<Rightarrow>
                    (if table_loc - 1 > ntables
                     then (Inl (RemoteDataError (Text
                             (''Table location '' @ str_int (int table_loc) @ '' invalid, ''
                                @ str_int (int ntables) @ '' tables found''))), self1)
                     else
                       (case store_option_data ev self1 tables table_loc name month' year' of
                          Inl e \<Rightarrow> (Inl (RemoteDataError (CannotRetrieveTableData e)), self1)
                        | Inr (option_data, self2) \<Rightarrow> (Inr option_data, self2))))))"

text \<open>\<^verbatim>\<open>Options.get_call_data\<close> and \<^verbatim>\<open>Options.get_put_data\<close>.\<close>

definition get_call_data ::
  "env \<Rightarrow> options \<Rightarrow> int option \<Rightarrow> int option \<Rightarrow> date option \<Rightarrow> (error + frame) \<times> options" where
  "get_call_data ev self month year expiry =
     (case get_option_data ev self month year expiry ''calls'' of
        (Inl e, self1) \<Rightarrow> (Inl e, self1)
      | (Inr df, self1) \<Rightarrow> (Inr (sortlevel ev df), self1))"

definition get_put_data ::
  "env \<Rightarrow> options \<Rightarrow> int option \<Rightarrow> int option \<Rightarrow> date option \<Rightarrow> (error + frame) \<times> options" where
  "get_put_data ev self month year expiry =
     (case get_option_data ev self month year expiry ''puts'' of
        (Inl e, self1) \<Rightarrow> (Inl e, self1)
      | (Inr df, self1) \<Rightarrow> (Inr (sortlevel ev df), self1))"

subsection \<open>The near-price filter\<close>

text \<open>
  The \<^verbatim>\<open>underlying_price\<close> argument of \<^verbatim>\<open>chop_data\<close>: \<^verbatim>\<open>None\<close>, an integer or a float.
\<close>

datatype pyarg = ANone | AInt int | AFloat pyfloat

text \<open>Python's truth value: \<^verbatim>\<open>None\<close>, \<^verbatim>\<open>0\<close> and \<^verbatim>\<open>0.0\<close> are false, not-a-number is true.\<close>

fun truthy :: "pyarg \<Rightarrow> bool" where
  "truthy ANone = False"
| "truthy (AInt i) = (i \<noteq> 0)"
| "truthy (AFloat (Flt x)) = (x \<noteq> 0)"
| "truthy (AFloat PosInf) = True"
| "truthy (AFloat NegInf) = True"
| "truthy (AFloat NaN) = True"

text \<open>The number an argument stands for in \<^verbatim>\<open>numpy.isnan\<close> and in a comparison.\<close>

fun arg_float :: "pyarg \<Rightarrow> pyfloat" where
  "arg_float (AInt i) = Flt (of_int i)"
| "arg_float (AFloat f) = f"
| "arg_float ANone = NaN"

text \<open>
  The first \<^verbatim>\<open>if\<close> of \<^verbatim>\<open>chop_data\<close>: an argument that is false is replaced by the
  session's price, or by not-a-number when the session has no such attribute. (The
  \<open>ANone\<close> case of \<open>arg_float\<close> is never used: \<^verbatim>\<open>None\<close> is false.)
\<close>

definition chop_price :: "options \<Rightarrow> pyarg \<Rightarrow> pyfloat" where
  "chop_price self price_arg =
     (if \<not> truthy price_arg
      then (case underlying_price self of Some p \<Rightarrow> p | None \<Rightarrow> NaN)
      else arg_float price_arg)"

text \<open>
  \<^verbatim>\<open>strikes > underlying_price\<close>, element by element, then \<^verbatim>\<open>np.where(...)[0][0]\<close>:
  the position of the first strike above the price, \<^verbatim>\<open>IndexError\<close> when there is none.
  A strike that is not a number cannot be compared with a float (Python 3).
\<close>

definition strike_gt :: "pyfloat \<Rightarrow> pyval \<Rightarrow> pyexc + bool" where
  "strike_gt price v =
     (case v of
        PNum f \<Rightarrow> Inr (float_gt f price)
      | PBool b \<Rightarrow> Inr (float_gt (Flt (if b then 1 else 0)) price)
      | _ \<Rightarrow> Inl TypeError)"

fun compare_all :: "(pyval \<Rightarrow> pyexc + bool) \<Rightarrow> pyval list \<Rightarrow> pyexc + bool list" where
  "compare_all cmp [] = Inr []"
| "compare_all cmp (v # vs) =
     (case cmp v of
        Inl e \<Rightarrow> Inl e
      | Inr b \<Rightarrow> (case compare_all cmp vs of Inl e \<Rightarrow> Inl e | Inr bs \<Rightarrow> Inr (b # bs)))"

definition where_true :: "bool list \<Rightarrow> nat list" where
  "where_true flags = filter (\<lambda>i. flags ! i) [0..<length flags]"

text \<open>
  \<^verbatim>\<open>Options.chop_data(df, above_below, underlying_price)\<close>: with a price that is
  not-a-number the frame comes back as it is; otherwise the rows
  \<^verbatim>\<open>start_index - above_below\<close> up to \<^verbatim>\<open>start_index + above_below\<close>, with Python's
  slicing, without the rows whose cells are all missing.
\<close>

definition chop_data :: "options \<Rightarrow> frame \<Rightarrow> int \<Rightarrow> pyarg \<Rightarrow> pyexc + frame" where
  "chop_data self df above_below price_arg =
     (let price = chop_price self price_arg in
      if \<not> isnan price
      then
        (case get_level_values df (PStr ''Strike'') of
           Inl e \<Rightarrow> Inl e
         | Inr strikes \<Rightarrow>
             (case compare_all (strike_gt price) strikes of
                Inl e \<Rightarrow> Inl e
              | Inr flags \<Rightarrow>
                  (case first (where_true flags) of
                     Inl e \<Rightarrow> Inl e
                   | Inr start_index \<Rightarrow>
                       Inr (dropna_all
                              (slice_rows (int start_index - above_below)
                                          (int start_index + above_below + 1) df)))))
      else Inr df)"

subsection \<open>The tabular parser, from the specification\<close>

text \<open>
  Modelled from the spec: \<^verbatim>\<open>TextParser\<close> of \<^verbatim>\<open>pandas.io.parsers\<close>, which is not among
  the sources. The specification gives its cell-value rule: a cell flagged with the
  negative marker has already been parsed as a float and negated (by
  \<open>parse_row_values\<close>) and is kept; "a quoted-string cell is taken literally;
  otherwise attempt numeric parse, falling back to not-a-number on failure", with the
  not-a-number tokens and the thousands separator of the call. A quoted string is read
  here as a text between two double quotes, and the numeric parse is \<open>decimal_float\<close>
  of the text without the separator.
\<close>

definition is_quoted :: "string \<Rightarrow> bool" where
  "is_quoted s = (2 \<le> length s \<and> hd s = CHR 0x22 \<and> last s = CHR 0x22)"

definition cell_value_rule :: "string list \<Rightarrow> char \<Rightarrow> pyval \<Rightarrow> pyval" where
  "cell_value_rule na_values thousands v =
     (case v of
        PStr s \<Rightarrow>
          (if is_quoted s then PStr s
           else if s \<in> set na_values then PNum NaN
           else (case decimal_float (remove_char thousands s) of
                   Some f \<Rightarrow> PNum f
                 | None \<Rightarrow> PNum NaN))
      | _ \<Rightarrow> v)"

text \<open>
  Modelled from the spec: the table \<^verbatim>\<open>TextParser\<close> builds, "parse headers from the
  header row, parse every subsequent row's cells": the header gives the column labels,
  each data row gives one row, its cells matched to the labels from the left.
\<close>

definition build_frame :: "pyval list \<Rightarrow> pyval list list \<Rightarrow> frame" where
  "build_frame names data =
     \<lparr>index_names = [], columns = names,
      rows = map (\<lambda>cells. \<lparr>ix = [], vals = zip names cells\<rparr>) data\<rparr>"

definition TextParser_spec ::
  "pyval list list \<Rightarrow> pyval list \<Rightarrow> string list \<Rightarrow> char \<Rightarrow> pyexc + frame" where
  "TextParser_spec data names na_values thousands =
     Inr (build_frame names (map (map (cell_value_rule na_values thousands)) data))"

text \<open>
  What becomes of one cell of a data row: \<open>parse_row_values\<close> of the source, then the
  cell-value rule with the arguments \<^verbatim>\<open>_parse_options_data\<close> passes.
\<close>

definition parse_cell :: "env \<Rightarrow> cell \<Rightarrow> pyval" where
  "parse_cell ev c = cell_value_rule [''N/A''] CHR '','' (parse_row_values ev c)"

subsection \<open>Example data\<close>

text \<open>A session for AAPL that has fetched nothing, and one for BRK-B.\<close>

definition aapl :: options where
  "aapl = \<lparr>symbol = ''AAPL'', underlying_price = None, quote_time = None,
            tables_attr = (\<lambda>_. None), frame_attr = (\<lambda>_. None), fetches = 0\<rparr>"

definition brk_b :: options where
  "brk_b = \<lparr>symbol = ''BRK-B'', underlying_price = Some (Flt 128), quote_time = Some (PNum NaN),
             tables_attr = (\<lambda>_. None), frame_attr = (\<lambda>_. None), fetches = 1\<rparr>"

text \<open>
  A processed table of calls with the ascending strikes 10, 20, ..., 70, indexed as
  \<^verbatim>\<open>_process_data\<close> leaves it, with one column.
\<close>

definition strikes_10_to_70 :: "pyval list" where
  "strikes_10_to_70 = map (\<lambda>x. PNum (Flt x)) [10, 20, 30, 40, 50, 60, 70]"

definition example_chain :: frame where
  "example_chain =
     \<lparr>index_names = [PStr ''Strike'', PStr ''Expiry'', PStr ''Type'', PStr ''Symbol''],
      columns = [PStr ''Last''],
      rows = map (\<lambda>(x, s). \<lparr>ix = [(PStr ''Strike'', PNum (Flt x)), (PStr ''Expiry'', PStr ''140621''),
                                   (PStr ''Type'', PStr ''call''), (PStr ''Symbol'', PStr s)],
                             vals = [(PStr ''Last'', PNum (Flt 1))]\<rparr>)
               [(10, ''AAPL140621C00010000''), (20, ''AAPL140621C00020000''),
                (30, ''AAPL140621C00030000''), (40, ''AAPL140621C00040000''),
                (50, ''AAPL140621C00050000''), (60, ''AAPL140621C00060000''),
                (70, ''AAPL140621C00070000'')]\<rparr>"

text \<open>
  An options page: fourteen tables, the calls at position 9 and the puts at position 13,
  a quote header with a price and no time of the quote.
\<close>

definition plain :: "string \<Rightarrow> cell" where
  "plain t = \<lparr>text_content = t, class_attrs = []\<rparr>"

definition header_row :: tr where
  "header_row =
     \<lparr>th_cells = map plain [''Strike'', ''Symbol'', ''Last'', ''Chg'', ''Open Int''],
      td_cells = []\<rparr>"

definition calls_table :: table where
  "calls_table =
     [header_row,
      \<lparr>th_cells = [],
       td_cells = [plain ''95.00'', plain ''AAPL140621C00095000'', plain ''5.10'',
                   \<lparr>text_content = ''0.25'', class_attrs = [''neg_arrow'']\<rparr>, plain ''1,234'']\<rparr>,
      \<lparr>th_cells = [],
       td_cells = [plain ''100.00'', plain ''AAPL140621C00100000'', plain ''2.05'',
                   plain ''0.10'', plain ''N/A'']\<rparr>]"

definition puts_table :: table where
  "puts_table =
     [header_row,
      \<lparr>th_cells = [],
       td_cells = [plain ''95.00'', plain ''AAPL140621P00095000'', plain ''1.10'',
                   plain ''0.05'', plain ''310'']\<rparr>]"

definition example_page :: page where
  "example_page =
     \<lparr>page_tables = replicate 9 [] @ [calls_table] @ replicate 3 [] @ [puts_table],
      time_rtq_ticker = [Element None [Element (Some ''94.03'') []]],
      time_rtq = []\<rparr>"

text \<open>
  A page with three tables only, one with a price that \<^verbatim>\<open>float\<close> rejects, one without
  tables, and one whose ticker element has no child.
\<close>

definition short_page :: page where
  "short_page = example_page\<lparr>page_tables := [[], [], []]\<rparr>"

definition comma_page :: page where
  "comma_page = example_page\<lparr>time_rtq_ticker := [Element None [Element (Some ''1,234.56'') []]]\<rparr>"

definition empty_page :: page where
  "empty_page = example_page\<lparr>page_tables := []\<rparr>"

definition childless_page :: page where
  "childless_page = example_page\<lparr>time_rtq_ticker := [Element (Some ''94.03'') []]\<rparr>"

text \<open>
  Environments for the examples: the clock reads 2 May 2014, every fetch returns the
  page given, the parser is the one modelled above, \<^verbatim>\<open>to_datetime\<close> hands its argument
  back, \<^verbatim>\<open>strptime\<close> accepts no text, \<^verbatim>\<open>float\<close> reads plain decimals, and
  \<^verbatim>\<open>sortlevel\<close> leaves the order.
\<close>

definition env_serving :: "page \<Rightarrow> env" where
  "env_serving pg =
     \<lparr>CUR_MONTH = 5, CUR_YEAR = 2014, CUR_DAY = 2,
      lxml_parse = (\<lambda>n url. Parsed (Some pg)),
      TextParser = TextParser_spec,
      to_datetime = (\<lambda>v. v),
      strptime = (\<lambda>t fmt. Inl ValueError),
      py_float = decimal_float,
      sortlevel = (\<lambda>df. df)\<rparr>"

definition june_2014 :: date where
  "june_2014 = \<lparr>d_year = 2014, d_month = 6, d_day = 1\<rparr>"

text \<open>A parsed table with one BRK-B call, as \<^verbatim>\<open>_process_data\<close> receives it.\<close>

definition brk_parsed :: frame where
  "brk_parsed =
     \<lparr>index_names = [],
      columns = [PStr ''Strike'', PStr ''Symbol'', PStr ''Last'', PStr ''Open Int''],
      rows = [\<lparr>ix = [],
               vals = [(PStr ''Strike'', PNum (Flt 100)),
                       (PStr ''Symbol'', PStr ''BRKB140517C00100000''),
                       (PStr ''Last'', PNum (Flt 28.5)),
                       (PStr ''Open Int'', PNum (Flt 12))]\<rparr>]\<rparr>"

section \<open>Properties\<close>

lemmas float_defs =
  decimal_float_def strip_def is_space_def unsigned_float_def is_digit_def digit_val_def
  remove_char_def

lemmas str_defs =
  str_int_def str_nat.simps digit_char_def two_char_month_def last_two_def attr_name_def
  drop_last_def take_last_def

subsection \<open>The session and the accessors\<close>

lemma Options_init_aapl: "Options_init ''aapl'' (Some ''yahoo'') = Inr aapl"
  by (simp add: Options_init_def aapl_def upper_def upper_char_def)

text \<open>
  \<^verbatim>\<open>get_call_data\<close> and \<^verbatim>\<open>get_put_data\<close> leave the session as
  \<^verbatim>\<open>_get_option_data\<close> does, and succeed when it does.
\<close>

lemma get_call_data_session:
  "snd (get_call_data ev self month year expiry) = snd (get_option_data ev self month year expiry ''calls'')
   \<and> isl (fst (get_call_data ev self month year expiry))
       = isl (fst (get_option_data ev self month year expiry ''calls''))"
  by (simp add: get_call_data_def split: prod.splits sum.splits)

lemma get_put_data_session:
  "snd (get_put_data ev self month year expiry) = snd (get_option_data ev self month year expiry ''puts'')
   \<and> isl (fst (get_put_data ev self month year expiry))
       = isl (fst (get_option_data ev self month year expiry ''puts''))"
  by (simp add: get_put_data_def split: prod.splits sum.splits)

subsection \<open>Date arguments\<close>

text \<open>
  C2. The claim: a \<^verbatim>\<open>ValueError\<close> is raised exactly when one of month and year is given
  without the other and no expiry is given, and an expiry overrides month and year, so
  that with an expiry no validation error is raised. The code does not do that: the
  test \<^verbatim>\<open>... or ... and expiry is None\<close> applies \<^verbatim>\<open>expiry is None\<close> to its second
  alternative only, and a call with a month, no year and an expiry raises
  \<^verbatim>\<open>ValueError\<close>, before anything is fetched and whatever the expiry is. (With a
  year, no month and an expiry the expiry does override.)
\<close>

theorem month_without_year_raises_despite_expiry:
  "try_parse_dates ev None (Some m) (Some e) = Inl (Raised ValueError)
   \<and> get_option_data ev self (Some m) None (Some e) name = (Inl (Raised ValueError), self)
   \<and> try_parse_dates ev (Some y) None (Some e) = Inr (d_year e, d_month e, e)"
  by (simp add: try_parse_dates_def get_option_data_def)

subsection \<open>Cells\<close>

text \<open>
  What \<open>parse_options_data\<close> returns with the parser of the specification: every cell
  of every data row goes through \<open>parse_row_values\<close> and then the cell-value rule.
\<close>

lemma parse_options_data_cells:
  assumes "TextParser ev = TextParser_spec"
  shows "parse_options_data ev (row0 # rest)
           = Inr (build_frame (unpack ev row0 ''th'')
                    (map (\<lambda>row. map (parse_cell ev) (td_cells row)) rest))"
  using assms
  by (simp add: parse_options_data_def unpack_def TextParser_spec_def comp_def
        parse_cell_def [abs_def])

text \<open>
  C7. In the table \<^verbatim>\<open>_parse_options_data\<close> returns, a cell with the negative marker and
  the text \<^verbatim>\<open>1,234\<close> is the float -1234.0 (the commas are removed, \<^verbatim>\<open>float\<close> reads
  \<^verbatim>\<open>1234\<close>, and the result is negated), a plain cell with the text \<^verbatim>\<open>N/A\<close> is
  not-a-number, and a plain cell with the text \<^verbatim>\<open>12.5\<close> is 12.5: so for a row of these
  three cells, and so for every cell of every data row, which is read by
  \<open>parse_row_values\<close> and then by the cell-value rule. The comma is a thousands separator
  (a plain \<^verbatim>\<open>1,234\<close> is 1234.0), and a marked cell whose text \<^verbatim>\<open>float\<close> rejects is
  not-a-number. The environment is any whose parser is the one modelled from the
  specification and whose \<^verbatim>\<open>float\<close> reads \<^verbatim>\<open>1234\<close> as 1234.0.
\<close>

theorem cell_parsing_examples:
  assumes "TextParser ev = TextParser_spec"
    and "py_float ev ''1234'' = Some (Flt 1234)"
    and "py_float ev (remove_char CHR '','' rejected) = None"
    and "''neg_arrow'' \<in> set marked" and "''neg_arrow'' \<notin> set unmarked"
  shows "parse_options_data ev
           [header,
            \<lparr>th_cells = ths,
             td_cells = [\<lparr>text_content = ''1,234'', class_attrs = marked\<rparr>,
                         \<lparr>text_content = ''N/A'', class_attrs = unmarked\<rparr>,
                         \<lparr>text_content = ''12.5'', class_attrs = unmarked\<rparr>]\<rparr>]
           = Inr (build_frame (unpack ev header ''th'')
                    [[PNum (Flt (- 1234)), PNum NaN, PNum (Flt 12.5)]])
       \<and> parse_options_data ev (row0 # rest)
           = Inr (build_frame (unpack ev row0 ''th'')
                    (map (\<lambda>row. map (parse_cell ev) (td_cells row)) rest))
       \<and> unpack ev row ''td'' = map (parse_row_values ev) (td_cells row)
       \<and> parse_row_values ev \<lparr>text_content = ''1,234'', class_attrs = marked\<rparr> = PNum (Flt (- 1234))
       \<and> parse_row_values ev \<lparr>text_content = rejected, class_attrs = marked\<rparr> = PNum NaN
       \<and> parse_row_values ev \<lparr>text_content = t, class_attrs = unmarked\<rparr> = PStr t
       \<and> parse_cell ev \<lparr>text_content = ''1,234'', class_attrs = marked\<rparr> = PNum (Flt (- 1234))
       \<and> parse_cell ev \<lparr>text_content = ''N/A'', class_attrs = unmarked\<rparr> = PNum NaN
       \<and> parse_cell ev \<lparr>text_content = ''12.5'', class_attrs = unmarked\<rparr> = PNum (Flt 12.5)
       \<and> parse_cell ev \<lparr>text_content = ''1,234'', class_attrs = unmarked\<rparr> = PNum (Flt 1234)
       \<and> parse_cell ev \<lparr>text_content = rejected, class_attrs = marked\<rparr> = PNum NaN"
proof -
  have marked_number:
    "parse_row_values ev \<lparr>text_content = ''1,234'', class_attrs = marked\<rparr> = PNum (Flt (- 1234))"
    using assms(2,4) by (simp add: parse_row_values_def remove_char_def)
  have marked_rejected:
    "parse_row_values ev \<lparr>text_content = rejected, class_attrs = marked\<rparr> = PNum NaN"
    using assms(3,4) by (simp add: parse_row_values_def)
  have unmarked: "\<And>u. parse_row_values ev \<lparr>text_content = u, class_attrs = unmarked\<rparr> = PStr u"
    using assms(5) by (simp add: parse_row_values_def)
  have cells:
    "parse_cell ev \<lparr>text_content = ''1,234'', class_attrs = marked\<rparr> = PNum (Flt (- 1234))"
    "parse_cell ev \<lparr>text_content = ''N/A'', class_attrs = unmarked\<rparr> = PNum NaN"
    "parse_cell ev \<lparr>text_content = ''12.5'', class_attrs = unmarked\<rparr> = PNum (Flt 12.5)"
    "parse_cell ev \<lparr>text_content = ''1,234'', class_attrs = unmarked\<rparr> = PNum (Flt 1234)"
    "parse_cell ev \<lparr>text_content = rejected, class_attrs = marked\<rparr> = PNum NaN"
    by (simp_all add: parse_cell_def marked_number marked_rejected unmarked cell_value_rule_def
          is_quoted_def float_defs)
  have general: "\<And>r0 rs. parse_options_data ev (r0 # rs)
           = Inr (build_frame (unpack ev r0 ''th'')
                    (map (\<lambda>row. map (parse_cell ev) (td_cells row)) rs))"
    by (rule parse_options_data_cells [OF assms(1)])
  have "unpack ev row ''td'' = map (parse_row_values ev) (td_cells row)"
    by (simp add: unpack_def)
  with general cells marked_number marked_rejected unmarked show ?thesis
    by simp
qed

theorem cell_parsing_examples_witness:
  "TextParser (env_serving example_page) = TextParser_spec
   \<and> py_float (env_serving example_page) ''1234'' = Some (Flt 1234)
   \<and> py_float (env_serving example_page) (remove_char CHR '','' ''N/A'') = None
   \<and> parse_options_data (env_serving example_page)
        [header_row,
         \<lparr>th_cells = [],
          td_cells = [\<lparr>text_content = ''1,234'', class_attrs = [''neg_arrow'']\<rparr>,
                      \<lparr>text_content = ''N/A'', class_attrs = []\<rparr>,
                      \<lparr>text_content = ''12.5'', class_attrs = []\<rparr>]\<rparr>]
       = Inr (build_frame (unpack (env_serving example_page) header_row ''th'')
                [[PNum (Flt (- 1234)), PNum NaN, PNum (Flt 12.5)]])
   \<and> parse_cell (env_serving example_page)
        \<lparr>text_content = ''N/A'', class_attrs = [''neg_arrow'']\<rparr> = PNum NaN"
proof -
  have parser: "TextParser (env_serving example_page) = TextParser_spec"
    by (simp add: env_serving_def)
  have accepted: "py_float (env_serving example_page) ''1234'' = Some (Flt 1234)"
    by (simp add: env_serving_def float_defs)
  have refused: "py_float (env_serving example_page) (remove_char CHR '','' ''N/A'') = None"
    by (simp add: env_serving_def float_defs)
  from cell_parsing_examples [OF parser accepted refused, of "[''neg_arrow'']" "[]" header_row "[]"]
       parser accepted refused
  show ?thesis by simp
qed

subsection \<open>The near-price filter\<close>

lemma first_above_42:
  "compare_all (strike_gt (Flt 42)) strikes_10_to_70
     = Inr [False, False, False, False, True, True, True]"
  by (simp add: strikes_10_to_70_def strike_gt_def)

lemma where_true_example:
  "first (where_true [False, False, False, False, True, True, True]) = Inr 4"
  by (simp add: where_true_def first_def item_def upt_rec)

lemma example_chain_strikes:
  "get_level_values example_chain (PStr ''Strike'') = Inr strikes_10_to_70"
  by (simp add: get_level_values_def example_chain_def strikes_10_to_70_def get_index_def)

lemma example_chain_no_empty_row:
  "dropna_all (example_chain\<lparr>rows := drop 2 (rows example_chain)\<rparr>)
     = example_chain\<lparr>rows := drop 2 (rows example_chain)\<rparr>"
  by (simp add: dropna_all_def example_chain_def get_cell_def isnull_def)

lemma example_chain_chopped:
  "chop_data aapl example_chain 2 (AFloat (Flt 42))
     = Inr (example_chain\<lparr>rows := drop 2 (rows example_chain)\<rparr>)"
proof -
  have "slice_rows (int 4 - 2) (int 4 + 2 + 1) example_chain
          = example_chain\<lparr>rows := drop 2 (rows example_chain)\<rparr>"
    by (simp add: slice_rows_def py_slice_def slice_bound_def example_chain_def)
  then show ?thesis
    by (simp add: chop_data_def chop_price_def example_chain_strikes first_above_42
          where_true_example example_chain_no_empty_row)
qed

text \<open>
  C3, as the claim states it: on the strikes 10, 20, ..., 70 with the price 42 and
  \<^verbatim>\<open>above_below=2\<close> the result has the strikes 20, 30, 40, 50, 60. It does not: the
  first strike above 42 is at position 4, the slice is \<^verbatim>\<open>[2:7]\<close>, and the rows at the
  positions 2 to 6 have the strikes 30 to 70.
\<close>

theorem chop_example_counterexample:
  "\<not> (\<exists>out. chop_data aapl example_chain 2 (AFloat (Flt 42)) = Inr out
          \<and> get_level_values out (PStr ''Strike'')
              = Inr (map (\<lambda>x. PNum (Flt x)) [20, 30, 40, 50, 60]))"
  by (simp add: example_chain_chopped)
     (simp add: get_level_values_def example_chain_def get_index_def)

text \<open>
  C3, amended: for a table whose Strike level is 10, 20, ..., 70, with the price 42
  (given as an integer or as a float) and \<^verbatim>\<open>above_below=2\<close>, \<^verbatim>\<open>chop_data\<close> returns the
  rows at the positions 2 to 6, whose strikes are 30, 40, 50, 60, 70, without those of
  them whose cells are all missing.
\<close>

theorem chop_example_window:
  assumes "get_level_values df (PStr ''Strike'') = Inr strikes_10_to_70"
    and "price_arg = AInt 42 \<or> price_arg = AFloat (Flt 42)"
  shows "chop_data self df 2 price_arg = Inr (dropna_all (df\<lparr>rows := drop 2 (rows df)\<rparr>))
       \<and> get_level_values (df\<lparr>rows := drop 2 (rows df)\<rparr>) (PStr ''Strike'')
           = Inr (map (\<lambda>x. PNum (Flt x)) [30, 40, 50, 60, 70])"
proof -
  from assms(1) have names: "PStr ''Strike'' \<in> set (index_names df)"
    and strikes: "map (\<lambda>r. get_index r (PStr ''Strike'')) (rows df) = strikes_10_to_70"
    by (auto simp: get_level_values_def split: if_splits)
  from strikes have len: "length (rows df) = 7"
    using length_map [of "\<lambda>r. get_index r (PStr ''Strike'')" "rows df"]
    by (simp add: strikes_10_to_70_def)
  have price: "chop_price self price_arg = Flt 42"
    using assms(2) by (auto simp: chop_price_def)
  have window: "slice_rows (int 4 - 2) (int 4 + 2 + 1) df = df\<lparr>rows := drop 2 (rows df)\<rparr>"
    by (simp add: slice_rows_def py_slice_def slice_bound_def len)
  have "chop_data self df 2 price_arg = Inr (dropna_all (df\<lparr>rows := drop 2 (rows df)\<rparr>))"
    using window by (simp add: chop_data_def price assms(1) first_above_42 where_true_example)
  moreover have "map (\<lambda>r. get_index r (PStr ''Strike'')) (drop 2 (rows df))
                   = drop 2 strikes_10_to_70"
    using strikes by (simp add: drop_map [symmetric])
  then have "get_level_values (df\<lparr>rows := drop 2 (rows df)\<rparr>) (PStr ''Strike'')
               = Inr (map (\<lambda>x. PNum (Flt x)) [30, 40, 50, 60, 70])"
    using names by (simp add: get_level_values_def strikes_10_to_70_def)
  ultimately show ?thesis by simp
qed

theorem chop_example_window_witness:
  "get_level_values example_chain (PStr ''Strike'') = Inr strikes_10_to_70
   \<and> chop_data aapl example_chain 2 (AInt 42)
       = Inr (example_chain\<lparr>rows := drop 2 (rows example_chain)\<rparr>)
   \<and> get_level_values (example_chain\<lparr>rows := drop 2 (rows example_chain)\<rparr>) (PStr ''Strike'')
       = Inr (map (\<lambda>x. PNum (Flt x)) [30, 40, 50, 60, 70])"
  using chop_example_window [OF example_chain_strikes, where price_arg = "AInt 42" and self = aapl]
  by (simp add: example_chain_strikes example_chain_no_empty_row)

text \<open>
  C9. When the \<^verbatim>\<open>underlying_price\<close> argument is not-a-number, \<^verbatim>\<open>chop_data\<close> returns the
  table it was given, whatever the table, \<^verbatim>\<open>above_below\<close> and the session are: no row is
  filtered or dropped and nothing is raised. The same holds when the argument is
  \<^verbatim>\<open>None\<close> and the price of the session is not-a-number.
\<close>

theorem chop_nan_identity:
  "chop_data self df above_below (AFloat NaN) = Inr df
   \<and> chop_data (self\<lparr>underlying_price := Some NaN\<rparr>) df above_below ANone = Inr df"
  by (simp add: chop_data_def chop_price_def)

text \<open>
  C10. An \<^verbatim>\<open>underlying_price\<close> argument that is false (\<^verbatim>\<open>None\<close>, \<^verbatim>\<open>0\<close>, \<^verbatim>\<open>0.0\<close>) counts
  as absent: the price used is the one stored in the session, or not-a-number when the
  session has none; so the result is the one for \<^verbatim>\<open>None\<close>, a given 0.0 is not what
  the strikes are compared with, and on a session without a stored price the table comes
  back as it is and nothing is raised.
\<close>

theorem chop_falsy_price:
  assumes "price_arg = ANone \<or> price_arg = AInt 0 \<or> price_arg = AFloat (Flt 0)"
  shows "chop_price self price_arg = (case underlying_price self of Some p \<Rightarrow> p | None \<Rightarrow> NaN)
       \<and> chop_data self df above_below price_arg = chop_data self df above_below ANone
       \<and> chop_data (self\<lparr>underlying_price := Some q\<rparr>) df above_below price_arg
           = chop_data (self\<lparr>underlying_price := Some q\<rparr>) df above_below (AFloat q)
       \<and> chop_data (self\<lparr>underlying_price := None\<rparr>) df above_below price_arg = Inr df"
proof -
  have falsy: "\<not> truthy price_arg"
    using assms by auto
  have stored: "chop_price (self\<lparr>underlying_price := Some q\<rparr>) (AFloat q) = q"
    by (cases q) (simp_all add: chop_price_def)
  show ?thesis
    using falsy stored by (simp add: chop_data_def chop_price_def)
qed

theorem chop_falsy_price_witness:
  "chop_price aapl (AFloat (Flt 0)) = (case underlying_price aapl of Some p \<Rightarrow> p | None \<Rightarrow> NaN)
   \<and> chop_data aapl example_chain 2 (AFloat (Flt 0)) = chop_data aapl example_chain 2 ANone
   \<and> chop_data (aapl\<lparr>underlying_price := Some (Flt 42)\<rparr>) example_chain 2 (AFloat (Flt 0))
       = chop_data (aapl\<lparr>underlying_price := Some (Flt 42)\<rparr>) example_chain 2 (AFloat (Flt 42))
   \<and> chop_data (aapl\<lparr>underlying_price := None\<rparr>) example_chain 2 (AFloat (Flt 0))
       = Inr example_chain"
  using chop_falsy_price [where price_arg = "AFloat (Flt 0)" and self = aapl and q = "Flt 42"
                            and df = example_chain and above_below = 2]
  by blast

subsection \<open>Post-processing\<close>

lemma map_of_rename_other:
  "k \<noteq> old \<Longrightarrow> k \<noteq> new \<Longrightarrow>
   map_of (map (\<lambda>(c, v). (if c = old then new else c, v)) ps) k = map_of ps k"
  by (induction ps) auto

lemma map_of_filter_keys:
  "P k \<Longrightarrow> map_of (filter (\<lambda>(c, v). P c) ps) k = map_of ps k"
  by (induction ps) auto

lemma rows_set_column:
  "rows (set_column c f df) = map (\<lambda>r. r\<lparr>vals := AList.update c (f r) (vals r)\<rparr>) (rows df)"
  by (simp add: set_column_def)

lemma rows_del_column:
  "rows (del_column c df) = map (\<lambda>r. r\<lparr>vals := AList.delete c (vals r)\<rparr>) (rows df)"
  by (simp add: del_column_def)

lemma rows_rename_column:
  "rows (rename_column old new df)
     = map (\<lambda>r. r\<lparr>vals := map (\<lambda>(c, v). (if c = old then new else c, v)) (vals r)\<rparr>) (rows df)"
  by (simp add: rename_column_def)

lemma rows_set_index:
  "set_index keys df = Inr out \<Longrightarrow>
   rows out = map (\<lambda>r. \<lparr>ix = map (\<lambda>k. (k, get_cell r k)) keys,
                          vals = filter (\<lambda>(c, v). c \<notin> set keys) (vals r)\<rparr>) (rows df)"
  by (auto simp: set_index_def split: if_splits)

text \<open>A successful \<open>process_data\<close> is the chain of its column assignments.\<close>

lemma process_data_chain:
  assumes "process_data ev self df ty = Inr out"
  shows "\<exists>price q.
     set_index [PStr ''Strike'', PStr ''Expiry'', PStr ''Type'', PStr ''Symbol'']
       (set_column (PStr ''Type'') (\<lambda>r. PStr ty)
         (rename_column (PStr ''Open Int'') (PStr ''Open_Int'')
           (set_column (PStr ''Quote_Time'') (\<lambda>r. q)
             (set_column (PStr ''Underlying_Price'') (\<lambda>r. PNum price)
               (set_column (PStr ''Underlying'') (\<lambda>r. PStr (symbol self))
                 (del_column (PStr ''Rootexp'')
                   (set_column (PStr ''IsNonstandard'')
                      (\<lambda>r. PBool (get_cell r (PStr ''Root'')
                                    \<noteq> PStr (remove_char CHR ''-'' (symbol self))))
                     (set_column (PStr ''Expiry'')
                        (\<lambda>r. to_datetime ev
                               (str_slice (take_last 6) (get_cell r (PStr ''Rootexp''))))
                       (set_column (PStr ''Root'')
                          (\<lambda>r. str_slice (drop_last 6) (get_cell r (PStr ''Rootexp'')))
                         (set_column (PStr ''Rootexp'')
                            (\<lambda>r. str_slice (drop_last 9) (get_cell r (PStr ''Symbol'')))
                            df)))))))))) = Inr out"
  using assms unfolding process_data_def Let_def
  by (simp split: if_splits option.splits) blast

lemma brk_processed:
  "\<not> isl (process_data (env_serving example_page) brk_b brk_parsed ''call'')"
  by code_simp

lemma brk_flag:
  "map (\<lambda>r. get_cell r (PStr ''IsNonstandard''))
     (rows (projr (process_data (env_serving example_page) brk_b brk_parsed ''call'')))
     = [PBool False]"
  by code_simp

text \<open>
  C6, as the claim states it: \<^verbatim>\<open>IsNonstandard\<close> is true exactly when the decoded root,
  with its hyphens removed, differs from the symbol of the session. Not so for the session
  BRK-B and the option BRKB140517C00100000: the root BRKB differs from BRK-B, with or
  without removing hyphens from the root, and the flag is false.
\<close>

theorem nonstandard_root_stripped_counterexample:
  "\<not> (\<forall>out. process_data (env_serving example_page) brk_b brk_parsed ''call'' = Inr out \<longrightarrow>
          map (\<lambda>r. get_cell r (PStr ''IsNonstandard'')) (rows out)
            = map (\<lambda>r. PBool (str_slice (remove_char CHR ''-'')
                                 (decoded_root (get_cell r (PStr ''Symbol'')))
                               \<noteq> PStr (symbol brk_b)))
                (rows brk_parsed))"
proof
  assume claim: "\<forall>out. process_data (env_serving example_page) brk_b brk_parsed ''call'' = Inr out \<longrightarrow>
          map (\<lambda>r. get_cell r (PStr ''IsNonstandard'')) (rows out)
            = map (\<lambda>r. PBool (str_slice (remove_char CHR ''-'')
                                 (decoded_root (get_cell r (PStr ''Symbol'')))
                               \<noteq> PStr (symbol brk_b)))
                (rows brk_parsed)"
  from brk_processed obtain out
    where out: "process_data (env_serving example_page) brk_b brk_parsed ''call'' = Inr out"
    by (cases "process_data (env_serving example_page) brk_b brk_parsed ''call''") auto
  from brk_flag out have "map (\<lambda>r. get_cell r (PStr ''IsNonstandard'')) (rows out) = [PBool False]"
    by simp
  moreover have "map (\<lambda>r. PBool (str_slice (remove_char CHR ''-'')
                                 (decoded_root (get_cell r (PStr ''Symbol'')))
                               \<noteq> PStr (symbol brk_b)))
                (rows brk_parsed) = [PBool True]"
    by (simp add: brk_parsed_def get_cell_def decoded_root_def str_slice_def drop_last_def
          remove_char_def brk_b_def)
  ultimately show False using claim out by simp
qed

text \<open>
  C6, amended: for every row of a table that \<^verbatim>\<open>_process_data\<close> has processed,
  \<^verbatim>\<open>IsNonstandard\<close> is true exactly when the root decoded from the row's symbol differs
  from the symbol of the session with its hyphens removed (the hyphens are removed from
  the session's symbol, not from the root); the \<^verbatim>\<open>Root\<close> column holds that root.
\<close>

theorem nonstandard_flag:
  assumes "process_data ev self df ty = Inr out"
  shows "map (\<lambda>r. get_cell r (PStr ''Root'')) (rows out)
           = map (\<lambda>r. decoded_root (get_cell r (PStr ''Symbol''))) (rows df)
       \<and> map (\<lambda>r. get_cell r (PStr ''IsNonstandard'')) (rows out)
           = map (\<lambda>r. PBool (decoded_root (get_cell r (PStr ''Symbol''))
                                \<noteq> PStr (remove_char CHR ''-'' (symbol self)))) (rows df)"
proof -
  from process_data_chain [OF assms] obtain price q fr where
    idx: "set_index [PStr ''Strike'', PStr ''Expiry'', PStr ''Type'', PStr ''Symbol''] fr = Inr out"
    and fr: "fr =
       set_column (PStr ''Type'') (\<lambda>r. PStr ty)
         (rename_column (PStr ''Open Int'') (PStr ''Open_Int'')
           (set_column (PStr ''Quote_Time'') (\<lambda>r. q)
             (set_column (PStr ''Underlying_Price'') (\<lambda>r. PNum price)
               (set_column (PStr ''Underlying'') (\<lambda>r. PStr (symbol self))
                 (del_column (PStr ''Rootexp'')
                   (set_column (PStr ''IsNonstandard'')
                      (\<lambda>r. PBool (get_cell r (PStr ''Root'')
                                    \<noteq> PStr (remove_char CHR ''-'' (symbol self))))
                     (set_column (PStr ''Expiry'')
                        (\<lambda>r. to_datetime ev
                               (str_slice (take_last 6) (get_cell r (PStr ''Rootexp''))))
                       (set_column (PStr ''Root'')
                          (\<lambda>r. str_slice (drop_last 6) (get_cell r (PStr ''Rootexp'')))
                         (set_column (PStr ''Rootexp'')
                            (\<lambda>r. str_slice (drop_last 9) (get_cell r (PStr ''Symbol'')))
                            df)))))))))"
    by blast
  show ?thesis
    unfolding rows_set_index [OF idx] fr
    by (simp add: rows_set_column rows_del_column rows_rename_column comp_def
          get_cell_def update_conv' delete_conv' map_of_rename_other map_of_filter_keys
          decoded_root_def)
qed

theorem nonstandard_flag_witness:
  "\<not> isl (process_data (env_serving example_page) brk_b brk_parsed ''call'')
   \<and> map (\<lambda>r. get_cell r (PStr ''Root''))
       (rows (projr (process_data (env_serving example_page) brk_b brk_parsed ''call'')))
       = [PStr ''BRKB'']
   \<and> map (\<lambda>r. get_cell r (PStr ''IsNonstandard''))
       (rows (projr (process_data (env_serving example_page) brk_b brk_parsed ''call'')))
       = [PBool (PStr ''BRKB'' \<noteq> PStr (remove_char CHR ''-'' (symbol brk_b)))]"
proof -
  from brk_processed
  have "process_data (env_serving example_page) brk_b brk_parsed ''call''
          = Inr (projr (process_data (env_serving example_page) brk_b brk_parsed ''call''))"
    by (cases "process_data (env_serving example_page) brk_b brk_parsed ''call''") auto
  from nonstandard_flag [OF this] brk_processed show ?thesis
    by (simp add: brk_parsed_def get_cell_def decoded_root_def str_slice_def drop_last_def)
qed

subsection \<open>The quote of the underlying\<close>

lemma comma_page_raises:
  "parse_option_page_from_yahoo (env_serving pg) self comma_page = (Inl (Raised ValueError), self)"
  by (simp add: parse_option_page_from_yahoo_def get_underlying_price_def
        read_underlying_price_def first_def item_def comma_page_def example_page_def
        env_serving_def float_defs)

lemma comma_page_request_fails:
  "fst (get_option_data (env_serving comma_page) aapl None None (Some june_2014) ''calls'')
     = Inl (Raised ValueError)"
  by code_simp

text \<open>The first statement of \<^verbatim>\<open>_get_underlying_price\<close> raises one of three exceptions.\<close>

lemma read_underlying_price_raises:
  "read_underlying_price ev pg = Inl e \<Longrightarrow> e = IndexError \<or> e = TypeError \<or> e = ValueError"
  by (auto simp: read_underlying_price_def first_def item_def
           split: if_splits sum.splits option.splits)

text \<open>
  C8, as the claim states it: on every fetched page where the lookup of the quote-ticker
  element or of the quote-time element finds nothing, the snapshot becomes two
  not-a-numbers and the request goes on. Not on every such page: only \<^verbatim>\<open>IndexError\<close> is
  caught, and the time is looked up after the price has been read. A page with no
  quote-time element and a ticker text that \<^verbatim>\<open>float\<close> rejects (here \<^verbatim>\<open>1,234.56\<close>)
  raises \<^verbatim>\<open>ValueError\<close>: the snapshot is not set and the chain request fails.
\<close>

theorem missing_quote_time_counterexample:
  "time_rtq comma_page = [] \<and> page_tables comma_page \<noteq> []
   \<and> parse_option_page_from_yahoo (env_serving comma_page) aapl comma_page
       = (Inl (Raised ValueError), aapl)
   \<and> fst (get_option_data (env_serving comma_page) aapl None None (Some june_2014) ''calls'')
       = Inl (Raised ValueError)"
  by (simp add: comma_page_raises comma_page_request_fails)
     (simp add: comma_page_def example_page_def)

text \<open>
  C8, amended: on every fetched page with at least one table where the lookup of the
  quote-ticker element finds nothing, or where the lookup of the quote-time element finds
  nothing and reading the price has not raised \<^verbatim>\<open>ValueError\<close> or \<^verbatim>\<open>TypeError\<close> (the
  price was read, or the ticker element has no child), and generally whenever reading the
  quote raises \<^verbatim>\<open>IndexError\<close>, the snapshot of the session is set to (not-a-number,
  not-a-number), nothing is raised, and the tables of the page are returned and cached for
  the expiry.
\<close>

theorem missing_quote_gives_nan:
  assumes "get_option_page_from_yahoo ev self expiry = (Inr pg, self0)"
    and "page_tables pg \<noteq> []"
    and "time_rtq_ticker pg = []
         \<or> (time_rtq pg = [] \<and> read_underlying_price ev pg \<noteq> Inl ValueError
                            \<and> read_underlying_price ev pg \<noteq> Inl TypeError)
         \<or> get_underlying_price ev pg = Inl IndexError"
  shows "parse_option_page_from_yahoo ev self0 pg
           = (Inr (page_tables pg),
              self0\<lparr>underlying_price := Some NaN, quote_time := Some (PNum NaN)\<rparr>)
       \<and> get_option_tables ev self expiry
           = (Inr (page_tables pg),
              self0\<lparr>underlying_price := Some NaN, quote_time := Some (PNum NaN),
                    tables_attr := (tables_attr self0)
                      (attr_name ''_tables'' (d_month expiry) (d_year expiry) \<mapsto> page_tables pg)\<rparr>)"
proof -
  have "get_underlying_price ev pg = Inl IndexError"
  proof -
    consider (no_ticker) "time_rtq_ticker pg = []"
      | (no_time) "time_rtq pg = []" "read_underlying_price ev pg \<noteq> Inl ValueError"
          "read_underlying_price ev pg \<noteq> Inl TypeError"
      | (index_error) "get_underlying_price ev pg = Inl IndexError"
      using assms(3) by blast
    then show ?thesis
    proof cases
      case no_ticker
      then show ?thesis
        by (simp add: get_underlying_price_def read_underlying_price_def first_def item_def)
    next
      case no_time
      show ?thesis
      proof (cases "read_underlying_price ev pg")
        case (Inl e)
        with read_underlying_price_raises [of ev pg e] no_time(2,3) have "e = IndexError"
          by auto
        with Inl show ?thesis by (simp add: get_underlying_price_def)
      next
        case (Inr price)
        with no_time(1) show ?thesis
          by (simp add: get_underlying_price_def read_quote_time_def first_def item_def)
      qed
    next
      case index_error
      then show ?thesis .
    qed
  qed
  with assms(2)
  have "parse_option_page_from_yahoo ev self0 pg
          = (Inr (page_tables pg),
             self0\<lparr>underlying_price := Some NaN, quote_time := Some (PNum NaN)\<rparr>)"
    by (simp add: parse_option_page_from_yahoo_def)
  with assms(1) show ?thesis
    by (simp add: get_option_tables_def)
qed

theorem missing_quote_gives_nan_witness:
  "time_rtq example_page = []
   \<and> read_underlying_price (env_serving example_page) example_page = Inr (Flt 94.03)
   \<and> underlying_price (snd (get_option_tables (env_serving example_page) aapl june_2014)) = Some NaN
   \<and> quote_time (snd (get_option_tables (env_serving example_page) aapl june_2014)) = Some (PNum NaN)
   \<and> fst (get_option_tables (env_serving example_page) aapl june_2014) = Inr (page_tables example_page)
   \<and> time_rtq childless_page = []
   \<and> read_underlying_price (env_serving childless_page) childless_page = Inl IndexError
   \<and> underlying_price (snd (get_option_tables (env_serving childless_page) aapl june_2014)) = Some NaN
   \<and> fst (get_option_tables (env_serving childless_page) aapl june_2014)
       = Inr (page_tables childless_page)"
proof -
  have page: "\<And>pg. get_option_page_from_yahoo (env_serving pg) aapl june_2014
                = (Inr pg, aapl\<lparr>fetches := 1\<rparr>)"
    by (simp add: get_option_page_from_yahoo_def parse_url_def env_serving_def aapl_def)
  have tables: "page_tables example_page \<noteq> []" "page_tables childless_page \<noteq> []"
    by (simp_all add: example_page_def childless_page_def)
  have price: "read_underlying_price (env_serving example_page) example_page = Inr (Flt 94.03)"
    by (simp add: read_underlying_price_def first_def item_def example_page_def env_serving_def
          float_defs)
  have childless:
    "read_underlying_price (env_serving childless_page) childless_page = Inl IndexError"
    by (simp add: read_underlying_price_def first_def item_def childless_page_def example_page_def)
  have no_time: "time_rtq example_page = []" "time_rtq childless_page = []"
    by (simp_all add: example_page_def childless_page_def)
  from missing_quote_gives_nan [OF page tables(1)] missing_quote_gives_nan [OF page tables(2)]
       price childless no_time
  show ?thesis by simp
qed

subsection \<open>The chain accessor\<close>

lemma try_parse_dates_expiry:
  "try_parse_dates ev year month expiry = Inr (y, m, e) \<Longrightarrow> d_year e = y \<and> d_month e = m"
  by (auto simp: try_parse_dates_def date_first_def split: if_splits option.splits sum.splits)

lemma parse_url_result:
  "parse_url ev self url = (res, s1) \<Longrightarrow>
     tables_attr s1 = tables_attr self \<and> frame_attr s1 = frame_attr self \<and> symbol s1 = symbol self
     \<and> (case res of Inr pg \<Rightarrow> fetches s1 = fetches self + 1
                     | Inl e \<Rightarrow> fetches s1 = fetches self \<or> fetches s1 = fetches self + 1)"
  by (auto simp: parse_url_def split: parse_outcome.splits option.splits)

lemma parse_option_page_result:
  "parse_option_page_from_yahoo ev self pg = (res, s1) \<Longrightarrow>
     tables_attr s1 = tables_attr self \<and> frame_attr s1 = frame_attr self \<and> symbol s1 = symbol self
     \<and> fetches s1 = fetches self
     \<and> (case res of Inr ts \<Rightarrow> ts = page_tables pg \<and> ts \<noteq> [] | Inl e \<Rightarrow> True)"
  by (auto simp: parse_option_page_from_yahoo_def Let_def
           split: if_splits sum.splits prod.splits pyexc.splits)

text \<open>A successful fetch is one call of \<^verbatim>\<open>parse(url)\<close> and caches the tables of the page.\<close>

lemma get_option_tables_fetched:
  assumes "get_option_tables ev self e = (Inr ts, s1)"
  shows "tables_attr s1 = (tables_attr self)(attr_name ''_tables'' (d_month e) (d_year e) \<mapsto> ts)
       \<and> frame_attr s1 = frame_attr self \<and> symbol s1 = symbol self
       \<and> fetches s1 = fetches self + 1 \<and> ts \<noteq> []"
proof -
  obtain r0 s0 where p0: "get_option_page_from_yahoo ev self e = (r0, s0)" by force
  with assms obtain pg where r0: "r0 = Inr pg"
    by (cases r0) (auto simp: get_option_tables_def)
  obtain r2 s2 where p2: "parse_option_page_from_yahoo ev s0 pg = (r2, s2)" by force
  with assms p0 r0 have r2: "r2 = Inr ts"
    and s1: "s1 = s2\<lparr>tables_attr :=
                      (tables_attr s2)(attr_name ''_tables'' (d_month e) (d_year e) \<mapsto> ts)\<rparr>"
    by (cases r2; auto simp: get_option_tables_def Let_def)+
  from p0 r0 have a: "tables_attr s0 = tables_attr self \<and> frame_attr s0 = frame_attr self
      \<and> symbol s0 = symbol self \<and> fetches s0 = fetches self + 1"
    using parse_url_result [of ev self _ "Inr pg" s0]
    by (auto simp: get_option_page_from_yahoo_def Let_def)
  from parse_option_page_result [OF p2] r2
  have b: "tables_attr s2 = tables_attr s0 \<and> frame_attr s2 = frame_attr s0
      \<and> symbol s2 = symbol s0 \<and> fetches s2 = fetches s0 \<and> ts \<noteq> []"
    by auto
  from a b s1 show ?thesis by simp
qed

lemma store_option_data_result:
  assumes "store_option_data ev self ts loc name m y = Inr (df, s2)"
  shows "tables_attr s2 = tables_attr self \<and> fetches s2 = fetches self \<and> symbol s2 = symbol self
       \<and> frame_attr s2
           = ((if m = CUR_MONTH ev \<and> y = CUR_YEAR ev then (frame_attr self)(name \<mapsto> df)
               else frame_attr self))(attr_name name m y \<mapsto> df)"
  using assms
  by (auto simp: store_option_data_def Let_def split: sum.splits if_splits)

lemma lookup_tables_result:
  assumes "lookup_tables ev self (attr_name ''_tables'' (d_month e) (d_year e)) e = (Inr ts, s1)"
  shows "tables_attr s1 (attr_name ''_tables'' (d_month e) (d_year e)) = Some ts
       \<and> frame_attr s1 = frame_attr self \<and> symbol s1 = symbol self
       \<and> fetches s1 = (if tables_attr self (attr_name ''_tables'' (d_month e) (d_year e)) = None
                        then fetches self + 1 else fetches self)"
proof (cases "tables_attr self (attr_name ''_tables'' (d_month e) (d_year e))")
  case None
  with assms have "get_option_tables ev self e = (Inr ts, s1)"
    by (simp add: lookup_tables_def)
  from get_option_tables_fetched [OF this] None show ?thesis by simp
next
  case (Some cached)
  with assms show ?thesis by (simp add: lookup_tables_def)
qed

lemma get_option_data_success:
  assumes "try_parse_dates ev year month expiry = Inr (y, m, e)"
    and "get_option_data ev self month year expiry name = (Inr df, s2)"
  shows "\<exists>ts s1 loc. lookup_tables ev self (attr_name ''_tables'' m y) e = (Inr ts, s1)
           \<and> TABLE_LOC name = Some loc
           \<and> store_option_data ev s1 ts loc name m y = Inr (df, s2)"
  using assms
  by (auto simp: get_option_data_def Let_def split: sum.splits prod.splits option.splits if_splits)


lemma str_nat_not_empty: "str_nat n \<noteq> []"
  by (subst str_nat.simps) simp

lemma attr_name_longer: "attr_name name m y \<noteq> name"
  by (simp add: attr_name_def two_char_month_def str_int_def Let_def str_nat_not_empty)

text \<open>The examples: a first call for June 2014 on the example page succeeds.\<close>

lemma june_calls_succeed:
  "\<not> isl (fst (get_option_data (env_serving example_page) aapl None None (Some june_2014) ''calls''))"
  by code_simp

lemma june_by_expiry:
  "try_parse_dates (env_serving pg) None None (Some june_2014) = Inr (2014, 6, june_2014)"
  by (simp add: try_parse_dates_def june_2014_def)


lemma result_collapse:
  "\<not> isl (fst call) \<Longrightarrow> call = (Inr (projr (fst call)), snd call)"
  by (cases call; cases "fst call") auto




text \<open>
  C5, as the claim states it: every successful call stores the table under the side-only
  name too. A call for June 2014, made in May 2014, succeeds and leaves the session
  without an attribute \<^verbatim>\<open>calls\<close>.
\<close>

theorem side_only_name_counterexample:
  "\<not> isl (fst (get_option_data (env_serving example_page) aapl None None (Some june_2014) ''calls''))
   \<and> frame_attr (snd (get_option_data (env_serving example_page) aapl None None (Some june_2014)
                       ''calls'')) ''calls'' = None"
proof -
  have "Option.is_none
          (frame_attr (snd (get_option_data (env_serving example_page) aapl None None
                              (Some june_2014) ''calls'')) ''calls'')"
    by code_simp
  with june_calls_succeed show ?thesis
    by (simp add: Option.is_none_def)
qed

text \<open>
  C5, amended: every successful call of the chain accessor stores the processed table
  under the name qualified by month and year (\<^verbatim>\<open>callsMMYY\<close>, \<^verbatim>\<open>putsMMYY\<close>); it stores it
  under the side-only name (\<^verbatim>\<open>calls\<close>, \<^verbatim>\<open>puts\<close>) exactly when the month and year of the
  request are the current ones, and otherwise leaves that attribute as it was.
\<close>

theorem stored_attributes:
  assumes "try_parse_dates ev year month expiry = Inr (y, m, e)"
    and "get_option_data ev self month year expiry name = (Inr df, self1)"
  shows "frame_attr self1 (attr_name name m y) = Some df
       \<and> frame_attr self1 name
           = (if m = CUR_MONTH ev \<and> y = CUR_YEAR ev then Some df else frame_attr self name)"
proof -
  from try_parse_dates_expiry [OF assms(1)] have key: "d_year e = y" "d_month e = m" by simp_all
  from get_option_data_success [OF assms] obtain ts s1 loc where
    look: "lookup_tables ev self (attr_name ''_tables'' m y) e = (Inr ts, s1)"
    and store: "store_option_data ev s1 ts loc name m y = Inr (df, self1)"
    by blast
  from lookup_tables_result [of ev self e ts s1] look key
  have "frame_attr s1 = frame_attr self" by simp
  with store_option_data_result [OF store] attr_name_longer [of name m y]
  show ?thesis by auto
qed

theorem stored_attributes_witness:
  "\<not> isl (fst (get_option_data (env_serving example_page) aapl None None (Some june_2014) ''calls''))
   \<and> frame_attr (snd (get_option_data (env_serving example_page) aapl None None (Some june_2014)
                       ''calls'')) ''calls0614''
       = Some (projr (fst (get_option_data (env_serving example_page) aapl None None
                             (Some june_2014) ''calls'')))
   \<and> frame_attr (snd (get_option_data (env_serving example_page) aapl None None (Some june_2014)
                       ''calls'')) ''calls'' = frame_attr aapl ''calls''"
proof -
  have name: "attr_name ''calls'' 6 2014 = ''calls0614''"
    by (simp add: str_defs)
  have clock: "CUR_MONTH (env_serving example_page) = 5"
    by (simp add: env_serving_def)
  from stored_attributes [OF june_by_expiry result_collapse [OF june_calls_succeed]]
       name clock june_calls_succeed
  show ?thesis by simp
qed

text \<open>A fetched page without tables is refused before any position is looked at.\<close>

lemma no_tables_found:
  assumes "get_option_page_from_yahoo ev self expiry = (Inr pg, self0)"
    and "page_tables pg = []"
  shows "get_option_tables ev self expiry
           = (Inl (RemoteDataError (Text ''No tables found'')), self0)"
  using assms by (simp add: get_option_tables_def parse_option_page_from_yahoo_def)

lemma no_tables_error:
  "fst (get_option_data (env_serving empty_page) aapl None None (Some june_2014) ''calls'')
     = Inl (RemoteDataError (Text ''No tables found''))"
  by code_simp

text \<open>
  C4, as the claim states it: on every page with fewer tables than the position of the
  requested side, the error names the position and the number of tables found. A page
  without any table is refused before the position is looked at, with the message
  \<^verbatim>\<open>No tables found\<close>.
\<close>

theorem table_position_counterexample:
  "length (page_tables empty_page) < 9
   \<and> fst (get_option_data (env_serving empty_page) aapl None None (Some june_2014) ''calls'')
       = Inl (RemoteDataError (Text ''No tables found''))
   \<and> fst (get_option_data (env_serving empty_page) aapl None None (Some june_2014) ''calls'')
       \<noteq> Inl (RemoteDataError (Text ''Table location 9 invalid, 0 tables found''))"
  by (simp add: no_tables_error) (simp add: empty_page_def)

text \<open>
  C4, amended: whenever the table set of the expiry, read from the session or taken from
  a page that was fetched and parsed (which has at least one table), has fewer than
  position - 1 tables (at most 7 for calls at position 9, at most 11 for puts at position
  13), the chain accessor raises \<^verbatim>\<open>RemoteDataError\<close> with the message
  \<^verbatim>\<open>Table location <position> invalid, <number> tables found\<close>.
\<close>

theorem table_location_error:
  assumes "try_parse_dates ev year month expiry = Inr (y, m, e)"
    and "lookup_tables ev self (attr_name ''_tables'' m y) e = (Inr tables, self1)"
    and "TABLE_LOC name = Some table_loc"
    and "length tables < table_loc - 1"
  shows "get_option_data ev self month year expiry name
           = (Inl (RemoteDataError (Text
                (''Table location '' @ str_int (int table_loc) @ '' invalid, ''
                   @ str_int (int (length tables)) @ '' tables found''))), self1)"
  using assms by (simp add: get_option_data_def)

theorem table_location_error_witness:
  "TABLE_LOC ''calls'' = Some 9 \<and> length (page_tables short_page) = 3
   \<and> fst (get_option_data (env_serving short_page) aapl None None (Some june_2014) ''calls'')
       = Inl (RemoteDataError (Text ''Table location 9 invalid, 3 tables found''))"
proof -
  have tables: "page_tables short_page = [[], [], []]"
    by (simp add: short_page_def)
  have look: "lookup_tables (env_serving short_page) aapl (attr_name ''_tables'' 6 2014) june_2014
                = (Inr (page_tables short_page),
                   snd (get_option_tables (env_serving short_page) aapl june_2014))"
    by (simp add: lookup_tables_def aapl_def get_option_tables_def get_option_page_from_yahoo_def
          parse_url_def env_serving_def parse_option_page_from_yahoo_def get_underlying_price_def
          read_underlying_price_def read_quote_time_def first_def item_def short_page_def
          example_page_def float_defs)
  have loc: "TABLE_LOC ''calls'' = Some 9"
    by (simp add: TABLE_LOC_def)
  from table_location_error [OF june_by_expiry look loc] tables loc show ?thesis
    by (simp add: str_defs)
qed

text \<open>
  With position - 1 or position tables the test \<^verbatim>\<open>table_loc - 1 > ntables\<close> lets the call
  through, \<^verbatim>\<open>tables[table_loc]\<close> is out of range, and the error is the general one of
  the \<^verbatim>\<open>try\<close> block.
\<close>

lemma table_location_unguarded:
  assumes "try_parse_dates ev year month expiry = Inr (y, m, e)"
    and "lookup_tables ev self (attr_name ''_tables'' m y) e = (Inr tables, self1)"
    and "TABLE_LOC name = Some table_loc"
    and "table_loc - 1 \<le> length tables" and "length tables \<le> table_loc"
  shows "get_option_data ev self month year expiry name
           = (Inl (RemoteDataError (CannotRetrieveTableData IndexError)), self1)"
  using assms by (simp add: get_option_data_def store_option_data_def item_def)

end
